theory Spec2Isabelle
  imports Main "HOL-Library.Word" "HOL-Library.Sublist"
begin

unbundle bit_operations_syntax

section \<open>Header tag output formats (lib/formats.c)\<close>

text \<open>
  A shallow embedding of the tag formatters of \<^verbatim>\<open>lib/formats.c\<close>. A C string is
  the list of its bytes before the terminating NUL; a \<^verbatim>\<open>char *\<close> result is a
  \<open>string option\<close>, \<open>None\<close> being the NULL pointer. A formatter receives the tag data
  container and the \<^verbatim>\<open>formatPrefix\<close> buffer, which it may extend with
  \<^verbatim>\<open>strcat\<close>; the model returns the result together with the buffer's new text.
  Behaviour that C leaves undefined is a \<open>fault\<close>.
\<close>

subsection \<open>Faults and results\<close>

datatype fault =
    Out_of_bounds         \<comment> \<open>a read past the bytes of the tag data\<close>
  | Null_deref            \<comment> \<open>a NULL pointer is dereferenced\<close>
  | Null_string_arg       \<comment> \<open>NULL passed for a \<^verbatim>\<open>%s\<close> directive\<close>
  | Arg_mismatch          \<comment> \<open>the directive does not fit the argument's type\<close>
  | Unmodelled_format     \<comment> \<open>a format string outside the fragment of printf modelled here\<close>

type_synonym conv_result = "fault + (string option \<times> string)"

subsection \<open>The tag data container\<close>

datatype rpmTagType =
    RPM_NULL_TYPE | RPM_CHAR_TYPE | RPM_INT8_TYPE | RPM_INT16_TYPE | RPM_INT32_TYPE
  | RPM_INT64_TYPE | RPM_STRING_TYPE | RPM_BIN_TYPE | RPM_STRING_ARRAY_TYPE
  | RPM_I18NSTRING_TYPE

text \<open>
  Modelled from the spec: the container \<^verbatim>\<open>struct rpmtd_s\<close> and its accessors
  (\<^verbatim>\<open>rpmtdType\<close>, \<^verbatim>\<open>rpmtdCount\<close>, \<^verbatim>\<open>rpmtdGetChar\<close>, \<^verbatim>\<open>rpmtdGetUint16\<close>,
  \<^verbatim>\<open>rpmtdGetUint32\<close>, \<^verbatim>\<open>rpmtdGetUint64\<close>, \<^verbatim>\<open>rpmtdGetString\<close>) are declared in
  rpmtd.h and are not part of the file. The spec describes a discriminated union of
  ten kinds with an element count; a scalar or string kind presents exactly one
  (current) value, a Binary value presents its \<^verbatim>\<open>count\<close> bytes. An accessor returns a
  pointer to the current value for the kinds it serves and NULL for any other kind.
\<close>

datatype tagged_value =
    Null
  | CharVal "8 word"
  | Int8 "8 word"
  | Int16 "16 word"
  | Int32 "32 word"
  | Int64 "64 word"
  | String string
  | StringArray string
  | I18nString string
  | Binary "8 word list"

record rpmtd =
  td_data :: tagged_value
  td_count :: "32 word"

fun kind_of :: "tagged_value \<Rightarrow> rpmTagType" where
  "kind_of Null = RPM_NULL_TYPE"
| "kind_of (CharVal _) = RPM_CHAR_TYPE"
| "kind_of (Int8 _) = RPM_INT8_TYPE"
| "kind_of (Int16 _) = RPM_INT16_TYPE"
| "kind_of (Int32 _) = RPM_INT32_TYPE"
| "kind_of (Int64 _) = RPM_INT64_TYPE"
| "kind_of (String _) = RPM_STRING_TYPE"
| "kind_of (StringArray _) = RPM_STRING_ARRAY_TYPE"
| "kind_of (I18nString _) = RPM_I18NSTRING_TYPE"
| "kind_of (Binary _) = RPM_BIN_TYPE"

definition rpmtdType :: "rpmtd \<Rightarrow> rpmTagType" where
  "rpmtdType td = kind_of (td_data td)"

definition rpmtdCount :: "rpmtd \<Rightarrow> 32 word" where
  "rpmtdCount td = td_count td"

fun rpmtdGetChar :: "rpmtd \<Rightarrow> 8 word option" where
  "rpmtdGetChar td = (case td_data td of CharVal c \<Rightarrow> Some c | Int8 c \<Rightarrow> Some c | _ \<Rightarrow> None)"

fun rpmtdGetUint16 :: "rpmtd \<Rightarrow> 16 word option" where
  "rpmtdGetUint16 td = (case td_data td of Int16 w \<Rightarrow> Some w | _ \<Rightarrow> None)"

fun rpmtdGetUint32 :: "rpmtd \<Rightarrow> 32 word option" where
  "rpmtdGetUint32 td = (case td_data td of Int32 w \<Rightarrow> Some w | _ \<Rightarrow> None)"

fun rpmtdGetUint64 :: "rpmtd \<Rightarrow> 64 word option" where
  "rpmtdGetUint64 td = (case td_data td of Int64 w \<Rightarrow> Some w | _ \<Rightarrow> None)"

fun rpmtdGetString :: "rpmtd \<Rightarrow> string option" where
  "rpmtdGetString td =
     (case td_data td of String s \<Rightarrow> Some s | StringArray s \<Rightarrow> Some s | I18nString s \<Rightarrow> Some s
      | _ \<Rightarrow> None)"

text \<open>The bytes \<^verbatim>\<open>td->data\<close> of length \<^verbatim>\<open>td->count\<close> of a Binary value.\<close>

fun rpmtdData :: "rpmtd \<Rightarrow> 8 word list" where
  "rpmtdData td = (case td_data td of Binary bs \<Rightarrow> bs | _ \<Rightarrow> [])"

text \<open>Reading through a pointer an accessor returned: NULL faults.\<close>

definition deref :: "'a option \<Rightarrow> fault + 'a" where
  "deref p = (case p of None \<Rightarrow> Inl Null_deref | Some x \<Rightarrow> Inr x)"

text \<open>
  Modelled from the spec: the macro \<^verbatim>\<open>_\<close> (message catalogue lookup, system.h) is not
  part of the file. The spec gives every placeholder verbatim, so the lookup returns
  the message unchanged.
\<close>

definition gettext_msg :: "string \<Rightarrow> string" where
  "gettext_msg s = s"

subsection \<open>Numerals as text\<close>

definition digit_char :: "nat \<Rightarrow> char" where
  "digit_char n = ''0123456789abcdef'' ! n"

function show_nat :: "nat \<Rightarrow> nat \<Rightarrow> string" where
  "show_nat b n =
     (if b < 2 \<or> n < b then [digit_char n]
      else show_nat b (n div b) @ [digit_char (n mod b)])"
  by pat_completeness auto
termination
  by (relation "measure snd") auto

declare show_nat.simps [simp del]

definition show_int :: "int \<Rightarrow> string" where
  "show_int i = (if i < 0 then CHR ''-'' # show_nat 10 (nat (- i)) else show_nat 10 (nat i))"

subsection \<open>Formatted output\<close>

text \<open>
  The C library's formatted output, for the one-directive format strings the formatters
  build: \<^verbatim>\<open>%\<close>, the flags \<^verbatim>\<open>-\<close> and \<^verbatim>\<open>0\<close>, a decimal field width, and one of the
  conversions the file appends (\<^verbatim>\<open>d u o x lu s\<close>; \<^verbatim>\<open>PRIu8\<close>, \<^verbatim>\<open>PRIu16\<close> and \<^verbatim>\<open>PRIu32\<close>
  are \<^verbatim>\<open>u\<close>, \<^verbatim>\<open>PRIu64\<close> is \<^verbatim>\<open>lu\<close>). Any other format string is outside the model and
  yields \<open>Unmodelled_format\<close>.
\<close>

datatype printf_arg =
    ArgInt "32 word"        \<comment> \<open>an \<^verbatim>\<open>int\<close> or \<^verbatim>\<open>unsigned int\<close> argument\<close>
  | ArgLong "64 word"       \<comment> \<open>a 64-bit argument\<close>
  | ArgStr "string option"  \<comment> \<open>a \<^verbatim>\<open>char *\<close> argument\<close>

definition is_digit :: "char \<Rightarrow> bool" where
  "is_digit c = (c \<in> set ''0123456789'')"

definition digit_val :: "char \<Rightarrow> nat" where
  "digit_val c = of_char c - 48"

definition width_of :: "string \<Rightarrow> nat" where
  "width_of ds = foldl (\<lambda>n c. 10 * n + digit_val c) 0 ds"

definition str_field :: "bool \<Rightarrow> nat \<Rightarrow> string \<Rightarrow> string" where
  "str_field left w s =
     (if left then s @ replicate (w - length s) CHR '' ''
      else replicate (w - length s) CHR '' '' @ s)"

definition num_field :: "bool \<Rightarrow> bool \<Rightarrow> nat \<Rightarrow> string \<Rightarrow> string \<Rightarrow> string" where
  "num_field left zero w sign ds =
     (if left then sign @ ds @ replicate (w - (length sign + length ds)) CHR '' ''
      else if zero then sign @ replicate (w - (length sign + length ds)) CHR ''0'' @ ds
      else replicate (w - (length sign + length ds)) CHR '' '' @ sign @ ds)"

definition render_conv :: "bool \<Rightarrow> bool \<Rightarrow> nat \<Rightarrow> string \<Rightarrow> printf_arg \<Rightarrow> fault + string" where
  "render_conv left zero w conv arg =
     (if conv = ''s'' then
        (case arg of
           ArgStr None \<Rightarrow> Inl Null_string_arg
         | ArgStr (Some s) \<Rightarrow> if zero then Inl Unmodelled_format else Inr (str_field left w s)
         | _ \<Rightarrow> Inl Arg_mismatch)
      else if conv = ''d'' then
        (case arg of
           ArgInt x \<Rightarrow>
             Inr (num_field left zero w (if sint x < 0 then ''-'' else [])
                    (show_nat 10 (nat \<bar>sint x\<bar>)))
         | _ \<Rightarrow> Inl Arg_mismatch)
      else if conv = ''u'' then
        (case arg of ArgInt x \<Rightarrow> Inr (num_field left zero w [] (show_nat 10 (unat x)))
         | _ \<Rightarrow> Inl Arg_mismatch)
      else if conv = ''o'' then
        (case arg of ArgInt x \<Rightarrow> Inr (num_field left zero w [] (show_nat 8 (unat x)))
         | _ \<Rightarrow> Inl Arg_mismatch)
      else if conv = ''x'' then
        (case arg of ArgInt x \<Rightarrow> Inr (num_field left zero w [] (show_nat 16 (unat x)))
         | _ \<Rightarrow> Inl Arg_mismatch)
      else if conv = ''lu'' then
        (case arg of ArgLong x \<Rightarrow> Inr (num_field left zero w [] (show_nat 10 (unat x)))
         | _ \<Rightarrow> Inl Arg_mismatch)
      else Inl Unmodelled_format)"

definition is_flag :: "char \<Rightarrow> bool" where
  "is_flag c = (c = CHR ''-'' \<or> c = CHR ''0'')"

definition c_sprintf :: "string \<Rightarrow> printf_arg \<Rightarrow> fault + string" where
  "c_sprintf fmt arg =
     (case fmt of
        [] \<Rightarrow> Inl Unmodelled_format
      | c # rest \<Rightarrow>
          if c = CHR ''%'' then
            (let flags = takeWhile is_flag rest;
                 rest1 = dropWhile is_flag rest;
                 left = (CHR ''-'' \<in> set flags);
                 zero = (CHR ''0'' \<in> set flags \<and> \<not> left)
             in render_conv left zero (width_of (takeWhile is_digit rest1))
                  (dropWhile is_digit rest1) arg)
          else Inl Unmodelled_format)"

text \<open>
  \<^verbatim>\<open>rasprintf(&val, fmt, arg)\<close> (rpmio/rpmstring.c) allocates the formatted text;
  \<^verbatim>\<open>snprintf(t, size, fmt, arg)\<close> keeps at most \<^verbatim>\<open>size - 1\<close> bytes of it.
\<close>

definition rasprintf :: "string \<Rightarrow> printf_arg \<Rightarrow> fault + string" where
  "rasprintf fmt arg = c_sprintf fmt arg"

definition c_snprintf_d :: "nat \<Rightarrow> nat \<Rightarrow> string" where
  "c_snprintf_d sz x = take (sz - 1) (show_nat 10 x)"

subsection \<open>External collaborators\<close>

text \<open>
  \<^verbatim>\<open>struct tm\<close> and the record of signature parameters \<^verbatim>\<open>pgpDigParams\<close> that
  \<^verbatim>\<open>pgpPrtPkts\<close> fills (rpmio/digest.h): the algorithm ids are one byte each, the
  creation time is a 4-byte array and the key id an 8-byte array, kept here as the
  big-endian numbers their bytes spell.
\<close>

record tm =
  tm_sec :: int
  tm_min :: int
  tm_hour :: int
  tm_mday :: int
  tm_mon :: int
  tm_year :: int
  tm_wday :: int
  tm_yday :: int
  tm_isdst :: int

record pgpDigParams =
  sig_pubkey_algo :: "8 word"
  sig_hash_algo :: "8 word"
  sig_time :: "32 word"
  sig_signid :: "64 word"

datatype pgpArmor = PGPARMOR_SIGNATURE | PGPARMOR_PUBKEY

text \<open>
  The primitives the file calls and does not define: the base64 codec, the ASCII armor
  wrapper, the OpenPGP packet parser, the permission string of a file mode, and the C
  library's calendar conversion and date formatting. \<open>strftime_text\<close> is the complete
  text a format yields for a broken-down time; \<open>strftime_leftover\<close> is the C string
  found in the destination after a call whose text did not fit (C leaves those
  contents indeterminate).
\<close>

record env =
  b64encode :: "8 word list \<Rightarrow> string option"
  b64decode :: "string \<Rightarrow> 8 word list option"
  pgpArmorWrap :: "pgpArmor \<Rightarrow> 8 word list \<Rightarrow> string option"
  pgpPrtPkts :: "8 word list \<Rightarrow> nat \<Rightarrow> pgpDigParams"
  rpmPermsString :: "32 word \<Rightarrow> string"
  localtime :: "nat \<Rightarrow> tm option"
  strftime_text :: "string \<Rightarrow> tm \<Rightarrow> string"
  strftime_leftover :: "nat \<Rightarrow> string \<Rightarrow> tm \<Rightarrow> string"

text \<open>
  \<^verbatim>\<open>strftime(buf, max, format, tstruct)\<close>: the text together with its NUL has to fit
  into \<^verbatim>\<open>max\<close> bytes; the result is the C string the destination then holds.
\<close>

definition c_strftime :: "env \<Rightarrow> nat \<Rightarrow> string \<Rightarrow> tm \<Rightarrow> string" where
  "c_strftime e maxsize format tstruct =
     (let d = strftime_text e format tstruct
      in if length d < maxsize then d
         else take (maxsize - 1) (strftime_leftover e maxsize format tstruct))"

text \<open>
  Modelled from the spec: \<^verbatim>\<open>pgpHexStr\<close> (rpmio/rpmpgp.h) is not part of the file; the
  spec has it render bytes as lowercase hex, two digits a byte.
\<close>

definition hex_byte :: "8 word \<Rightarrow> string" where
  "hex_byte b = [digit_char (unat b div 16), digit_char (unat b mod 16)]"

definition pgpHexStr :: "8 word list \<Rightarrow> string" where
  "pgpHexStr bs = concat (map hex_byte bs)"

definition signid_bytes :: "64 word \<Rightarrow> 8 word list" where
  "signid_bytes w = map (\<lambda>i. ucast (drop_bit (8 * i) w)) [7, 6, 5, 4, 3, 2, 1, 0]"

text \<open>Sequencing of computations that may fault.\<close>

definition fbind :: "fault + 'a \<Rightarrow> ('a \<Rightarrow> fault + 'b) \<Rightarrow> fault + 'b" where
  "fbind m f = (case m of Inl e \<Rightarrow> Inl e | Inr x \<Rightarrow> f x)"

subsection \<open>Constants of the headers\<close>

text \<open>
  Modelled from the spec: the flag and algorithm constants are declared in rpmfi.h,
  rpmds.h and rpmpgp.h, not in the file. The spec names them (doc, config, specfile,
  missing-ok, noreplace, ghost, license, readme; less, greater, equal; the four trigger
  phases; DSA, RSA, MD5, SHA1; the signature packet tag); the values are those of the
  headers and of the OpenPGP format.
\<close>

definition RPMFILE_CONFIG :: "32 word" where "RPMFILE_CONFIG = 1"
definition RPMFILE_DOC :: "32 word" where "RPMFILE_DOC = 2"
definition RPMFILE_MISSINGOK :: "32 word" where "RPMFILE_MISSINGOK = 8"
definition RPMFILE_NOREPLACE :: "32 word" where "RPMFILE_NOREPLACE = 16"
definition RPMFILE_SPECFILE :: "32 word" where "RPMFILE_SPECFILE = 32"
definition RPMFILE_GHOST :: "32 word" where "RPMFILE_GHOST = 64"
definition RPMFILE_LICENSE :: "32 word" where "RPMFILE_LICENSE = 128"
definition RPMFILE_README :: "32 word" where "RPMFILE_README = 256"

definition RPMSENSE_LESS :: "32 word" where "RPMSENSE_LESS = 2"
definition RPMSENSE_GREATER :: "32 word" where "RPMSENSE_GREATER = 4"
definition RPMSENSE_EQUAL :: "32 word" where "RPMSENSE_EQUAL = 8"
definition RPMSENSE_TRIGGERIN :: "32 word" where "RPMSENSE_TRIGGERIN = 0x10000"
definition RPMSENSE_TRIGGERUN :: "32 word" where "RPMSENSE_TRIGGERUN = 0x20000"
definition RPMSENSE_TRIGGERPOSTUN :: "32 word" where "RPMSENSE_TRIGGERPOSTUN = 0x40000"
definition RPMSENSE_TRIGGERPREIN :: "32 word" where "RPMSENSE_TRIGGERPREIN = 0x2000000"

definition PGPTAG_SIGNATURE :: "32 word" where "PGPTAG_SIGNATURE = 2"
definition PGPPUBKEYALGO_RSA :: "8 word" where "PGPPUBKEYALGO_RSA = 1"
definition PGPPUBKEYALGO_DSA :: "8 word" where "PGPPUBKEYALGO_DSA = 17"
definition PGPHASHALGO_MD5 :: "8 word" where "PGPHASHALGO_MD5 = 1"
definition PGPHASHALGO_SHA1 :: "8 word" where "PGPHASHALGO_SHA1 = 2"

subsection \<open>The formatters\<close>

definition not_a_number :: string where
  "not_a_number = gettext_msg ''(not a number)''"

definition not_a_blob :: string where
  "not_a_blob = gettext_msg ''(not a blob)''"

text \<open>
  In \<^verbatim>\<open>stringFormat\<close> the argument \<^verbatim>\<open>*rpmtdGetChar(td)\<close> is a plain \<^verbatim>\<open>char\<close>. It
  is promoted to \<^verbatim>\<open>int\<close> when passed through the variable argument list, and plain
  \<^verbatim>\<open>char\<close> is signed on x86, so the 32-bit argument that \<^verbatim>\<open>%u\<close> reads is the
  sign extension of the byte: the byte \<^verbatim>\<open>0xff\<close> prints as \<^verbatim>\<open>4294967295\<close>. The
  \<^verbatim>\<open>uint16_t\<close> of the next branch is promoted without a sign.
\<close>

definition stringFormat :: "rpmtd \<Rightarrow> string \<Rightarrow> conv_result" where
  "stringFormat td formatPrefix =
     (case rpmtdType td of
        RPM_INT8_TYPE \<Rightarrow>
          fbind (deref (rpmtdGetChar td)) (\<lambda>c.
          fbind (rasprintf (formatPrefix @ ''u'') (ArgInt (scast c))) (\<lambda>v.
          Inr (Some v, formatPrefix @ ''u'')))
      | RPM_CHAR_TYPE \<Rightarrow>
          fbind (deref (rpmtdGetChar td)) (\<lambda>c.
          fbind (rasprintf (formatPrefix @ ''u'') (ArgInt (scast c))) (\<lambda>v.
          Inr (Some v, formatPrefix @ ''u'')))
      | RPM_INT16_TYPE \<Rightarrow>
          fbind (deref (rpmtdGetUint16 td)) (\<lambda>w.
          fbind (rasprintf (formatPrefix @ ''u'') (ArgInt (ucast w))) (\<lambda>v.
          Inr (Some v, formatPrefix @ ''u'')))
      | RPM_INT32_TYPE \<Rightarrow>
          fbind (deref (rpmtdGetUint32 td)) (\<lambda>w.
          fbind (rasprintf (formatPrefix @ ''u'') (ArgInt w)) (\<lambda>v.
          Inr (Some v, formatPrefix @ ''u'')))
      | RPM_INT64_TYPE \<Rightarrow>
          fbind (deref (rpmtdGetUint64 td)) (\<lambda>w.
          fbind (rasprintf (formatPrefix @ ''lu'') (ArgLong w)) (\<lambda>v.
          Inr (Some v, formatPrefix @ ''lu'')))
      | RPM_STRING_TYPE \<Rightarrow>
          fbind (rasprintf (formatPrefix @ ''s'') (ArgStr (rpmtdGetString td))) (\<lambda>v.
          Inr (Some v, formatPrefix @ ''s''))
      | RPM_STRING_ARRAY_TYPE \<Rightarrow>
          fbind (rasprintf (formatPrefix @ ''s'') (ArgStr (rpmtdGetString td))) (\<lambda>v.
          Inr (Some v, formatPrefix @ ''s''))
      | RPM_I18NSTRING_TYPE \<Rightarrow>
          fbind (rasprintf (formatPrefix @ ''s'') (ArgStr (rpmtdGetString td))) (\<lambda>v.
          Inr (Some v, formatPrefix @ ''s''))
      | RPM_BIN_TYPE \<Rightarrow>
          fbind (rasprintf (formatPrefix @ ''s'') (ArgStr (Some (pgpHexStr (rpmtdData td))))) (\<lambda>v.
          Inr (Some v, formatPrefix @ ''s''))
      | _ \<Rightarrow> Inr (Some ''(unknown type)'', formatPrefix))"

definition octalFormat :: "rpmtd \<Rightarrow> string \<Rightarrow> conv_result" where
  "octalFormat td formatPrefix =
     (if rpmtdType td \<noteq> RPM_INT32_TYPE then Inr (Some not_a_number, formatPrefix)
      else
        fbind (deref (rpmtdGetUint32 td)) (\<lambda>w.
        fbind (rasprintf (formatPrefix @ ''o'') (ArgInt w)) (\<lambda>v.
        Inr (Some v, formatPrefix @ ''o''))))"

definition hexFormat :: "rpmtd \<Rightarrow> string \<Rightarrow> conv_result" where
  "hexFormat td formatPrefix =
     (if rpmtdType td \<noteq> RPM_INT32_TYPE then Inr (Some not_a_number, formatPrefix)
      else
        fbind (deref (rpmtdGetUint32 td)) (\<lambda>w.
        fbind (rasprintf (formatPrefix @ ''x'') (ArgInt w)) (\<lambda>v.
        Inr (Some v, formatPrefix @ ''x''))))"

definition realDateFormat :: "env \<Rightarrow> rpmtd \<Rightarrow> string \<Rightarrow> string \<Rightarrow> conv_result" where
  "realDateFormat e td formatPrefix strftimeFormat =
     (if rpmtdType td \<noteq> RPM_INT32_TYPE then Inr (Some not_a_number, formatPrefix)
      else
        fbind (deref (rpmtdGetUint32 td)) (\<lambda>rt.
        let dateint = unat rt;
            buf = (case localtime e dateint of
                     None \<Rightarrow> []
                   | Some tstruct \<Rightarrow> c_strftime e (50 - 1) strftimeFormat tstruct)
        in fbind (rasprintf (formatPrefix @ ''s'') (ArgStr (Some buf))) (\<lambda>v.
           Inr (Some v, formatPrefix @ ''s''))))"

definition dateFormat :: "env \<Rightarrow> rpmtd \<Rightarrow> string \<Rightarrow> conv_result" where
  "dateFormat e td formatPrefix = realDateFormat e td formatPrefix (gettext_msg ''%c'')"

definition dayFormat :: "env \<Rightarrow> rpmtd \<Rightarrow> string \<Rightarrow> conv_result" where
  "dayFormat e td formatPrefix = realDateFormat e td formatPrefix (gettext_msg ''%a %b %d %Y'')"

text \<open>The copy loop of \<^verbatim>\<open>shescapeFormat\<close>: \<open>dst\<close> is the text written so far.\<close>

fun shescape_loop :: "string \<Rightarrow> string \<Rightarrow> string" where
  "shescape_loop [] dst = dst"
| "shescape_loop (c # src) dst =
     (if c = CHR 0x27 then shescape_loop src (dst @ [CHR 0x27, CHR 0x5C, CHR 0x27, CHR 0x27])
      else shescape_loop src (dst @ [c]))"

definition shescapeFormat :: "rpmtd \<Rightarrow> string \<Rightarrow> conv_result" where
  "shescapeFormat td formatPrefix =
     (if rpmtdType td = RPM_INT32_TYPE then
        fbind (deref (rpmtdGetUint32 td)) (\<lambda>w.
        fbind (rasprintf (formatPrefix @ ''d'') (ArgInt w)) (\<lambda>v.
        Inr (Some v, formatPrefix @ ''d'')))
      else
        fbind (rasprintf (formatPrefix @ ''s'') (ArgStr (rpmtdGetString td))) (\<lambda>buf.
        Inr (Some (shescape_loop buf [CHR 0x27] @ [CHR 0x27]), formatPrefix @ ''s'')))"

definition triggertypeFormat :: "rpmtd \<Rightarrow> string \<Rightarrow> conv_result" where
  "triggertypeFormat td formatPrefix =
     (let item = rpmtdGetUint32 td
      in if rpmtdType td \<noteq> RPM_INT32_TYPE then Inr (Some not_a_number, formatPrefix)
         else
           fbind (deref item) (\<lambda>w.
           if w AND RPMSENSE_TRIGGERPREIN \<noteq> 0 then Inr (Some ''prein'', formatPrefix)
           else if w AND RPMSENSE_TRIGGERIN \<noteq> 0 then Inr (Some ''in'', formatPrefix)
           else if w AND RPMSENSE_TRIGGERUN \<noteq> 0 then Inr (Some ''un'', formatPrefix)
           else if w AND RPMSENSE_TRIGGERPOSTUN \<noteq> 0 then Inr (Some ''postun'', formatPrefix)
           else Inr (Some [], formatPrefix)))"

definition permsFormat :: "env \<Rightarrow> rpmtd \<Rightarrow> string \<Rightarrow> conv_result" where
  "permsFormat e td formatPrefix =
     (if rpmtdType td \<noteq> RPM_INT32_TYPE then Inr (Some not_a_number, formatPrefix)
      else
        fbind (deref (rpmtdGetUint32 td)) (\<lambda>w.
        fbind (rasprintf (formatPrefix @ ''s'') (ArgStr (Some (rpmPermsString e w)))) (\<lambda>v.
        Inr (Some v, formatPrefix @ ''s''))))"

text \<open>One \<^verbatim>\<open>if (anint & FLAG) strcat(buf, "c");\<close> statement.\<close>

definition strcat_if :: "32 word \<Rightarrow> 32 word \<Rightarrow> string \<Rightarrow> string \<Rightarrow> string" where
  "strcat_if anint flag s buf = (if anint AND flag \<noteq> 0 then buf @ s else buf)"

definition fflags_buf :: "32 word \<Rightarrow> string" where
  "fflags_buf anint =
     (let buf = [];
          buf = strcat_if anint RPMFILE_DOC ''d'' buf;
          buf = strcat_if anint RPMFILE_CONFIG ''c'' buf;
          buf = strcat_if anint RPMFILE_SPECFILE ''s'' buf;
          buf = strcat_if anint RPMFILE_MISSINGOK ''m'' buf;
          buf = strcat_if anint RPMFILE_NOREPLACE ''n'' buf;
          buf = strcat_if anint RPMFILE_GHOST ''g'' buf;
          buf = strcat_if anint RPMFILE_LICENSE ''l'' buf;
          buf = strcat_if anint RPMFILE_README ''r'' buf
      in buf)"

definition fflagsFormat :: "rpmtd \<Rightarrow> string \<Rightarrow> conv_result" where
  "fflagsFormat td formatPrefix =
     (if rpmtdType td \<noteq> RPM_INT32_TYPE then Inr (Some not_a_number, formatPrefix)
      else
        fbind (deref (rpmtdGetUint32 td)) (\<lambda>anint.
        fbind (rasprintf (formatPrefix @ ''s'') (ArgStr (Some (fflags_buf anint)))) (\<lambda>v.
        Inr (Some v, formatPrefix @ ''s''))))"

definition depflags_buf :: "32 word \<Rightarrow> string" where
  "depflags_buf anint =
     (let buf = [];
          buf = strcat_if anint RPMSENSE_LESS ''<'' buf;
          buf = strcat_if anint RPMSENSE_GREATER ''>'' buf;
          buf = strcat_if anint RPMSENSE_EQUAL ''='' buf
      in buf)"

definition depflagsFormat :: "rpmtd \<Rightarrow> string \<Rightarrow> conv_result" where
  "depflagsFormat td formatPrefix =
     (if rpmtdType td \<noteq> RPM_INT32_TYPE then Inr (Some not_a_number, formatPrefix)
      else
        fbind (deref (rpmtdGetUint32 td)) (\<lambda>anint.
        fbind (rasprintf (formatPrefix @ ''s'') (ArgStr (Some (depflags_buf anint)))) (\<lambda>v.
        Inr (Some v, formatPrefix @ ''s''))))"

definition armorFormat :: "env \<Rightarrow> rpmtd \<Rightarrow> string \<Rightarrow> conv_result" where
  "armorFormat e td formatPrefix =
     (case rpmtdType td of
        RPM_BIN_TYPE \<Rightarrow> Inr (pgpArmorWrap e PGPARMOR_SIGNATURE (rpmtdData td), formatPrefix)
      | RPM_STRING_TYPE \<Rightarrow>
          fbind (deref (rpmtdGetString td)) (\<lambda>enc.
          case b64decode e enc of
            None \<Rightarrow> Inr (Some (gettext_msg ''(not base64)''), formatPrefix)
          | Some bs \<Rightarrow> Inr (pgpArmorWrap e PGPARMOR_PUBKEY bs, formatPrefix))
      | RPM_STRING_ARRAY_TYPE \<Rightarrow>
          fbind (deref (rpmtdGetString td)) (\<lambda>enc.
          case b64decode e enc of
            None \<Rightarrow> Inr (Some (gettext_msg ''(not base64)''), formatPrefix)
          | Some bs \<Rightarrow> Inr (pgpArmorWrap e PGPARMOR_PUBKEY bs, formatPrefix))
      | _ \<Rightarrow> Inr (Some (gettext_msg ''(invalid type)''), formatPrefix))"

definition base64Format :: "env \<Rightarrow> rpmtd \<Rightarrow> string \<Rightarrow> conv_result" where
  "base64Format e td formatPrefix =
     (if rpmtdType td \<noteq> RPM_BIN_TYPE then Inr (Some not_a_blob, formatPrefix)
      else
        (case b64encode e (rpmtdData td) of
           None \<Rightarrow> Inr (None, formatPrefix)
         | Some enc \<Rightarrow>
             fbind (rasprintf (formatPrefix @ ''s'') (ArgStr (Some enc))) (\<lambda>v.
             Inr (Some v, formatPrefix @ ''s''))))"

definition arraysizeFormat :: "rpmtd \<Rightarrow> string \<Rightarrow> conv_result" where
  "arraysizeFormat td formatPrefix =
     fbind (rasprintf (formatPrefix @ ''u'') (ArgInt (rpmtdCount td))) (\<lambda>v.
     Inr (Some v, formatPrefix @ ''u''))"

subsection \<open>The table of formats and its lookups\<close>

datatype rpmtdFormats =
    RPMTD_FORMAT_STRING | RPMTD_FORMAT_ARMOR | RPMTD_FORMAT_BASE64 | RPMTD_FORMAT_PGPSIG
  | RPMTD_FORMAT_DEPFLAGS | RPMTD_FORMAT_FFLAGS | RPMTD_FORMAT_PERMS
  | RPMTD_FORMAT_TRIGGERTYPE | RPMTD_FORMAT_XML | RPMTD_FORMAT_OCTAL | RPMTD_FORMAT_HEX
  | RPMTD_FORMAT_DATE | RPMTD_FORMAT_DAY | RPMTD_FORMAT_SHESCAPE | RPMTD_FORMAT_ARRAYSIZE

text \<open>The formatter a \<^verbatim>\<open>func\<close> pointer of the table points to.\<close>

datatype formatter =
    Fn_stringFormat | Fn_armorFormat | Fn_base64Format | Fn_pgpsigFormat
  | Fn_depflagsFormat | Fn_fflagsFormat | Fn_permsFormat | Fn_triggertypeFormat
  | Fn_xmlFormat | Fn_octalFormat | Fn_hexFormat | Fn_dateFormat | Fn_dayFormat
  | Fn_shescapeFormat | Fn_arraysizeFormat

text \<open>
  \<^verbatim>\<open>struct headerFormatFunc_s\<close>; \<open>None\<close> is the \<^verbatim>\<open>-1\<close> and the NULLs of the closing
  entry.
\<close>

record headerFormatFunc_s =
  ext_fmt :: "rpmtdFormats option"
  ext_name :: "string option"
  ext_func :: "formatter option"

definition entry :: "rpmtdFormats \<Rightarrow> string \<Rightarrow> formatter \<Rightarrow> headerFormatFunc_s" where
  "entry f n fn = \<lparr>ext_fmt = Some f, ext_name = Some n, ext_func = Some fn\<rparr>"

definition rpmHeaderFormats :: "headerFormatFunc_s list" where
  "rpmHeaderFormats =
     [entry RPMTD_FORMAT_STRING ''string'' Fn_stringFormat,
      entry RPMTD_FORMAT_ARMOR ''armor'' Fn_armorFormat,
      entry RPMTD_FORMAT_BASE64 ''base64'' Fn_base64Format,
      entry RPMTD_FORMAT_PGPSIG ''pgpsig'' Fn_pgpsigFormat,
      entry RPMTD_FORMAT_DEPFLAGS ''depflags'' Fn_depflagsFormat,
      entry RPMTD_FORMAT_FFLAGS ''fflags'' Fn_fflagsFormat,
      entry RPMTD_FORMAT_PERMS ''perms'' Fn_permsFormat,
      entry RPMTD_FORMAT_PERMS ''permissions'' Fn_permsFormat,
      entry RPMTD_FORMAT_TRIGGERTYPE ''triggertype'' Fn_triggertypeFormat,
      entry RPMTD_FORMAT_XML ''xml'' Fn_xmlFormat,
      entry RPMTD_FORMAT_OCTAL ''octal'' Fn_octalFormat,
      entry RPMTD_FORMAT_HEX ''hex'' Fn_hexFormat,
      entry RPMTD_FORMAT_DATE ''date'' Fn_dateFormat,
      entry RPMTD_FORMAT_DAY ''day'' Fn_dayFormat,
      entry RPMTD_FORMAT_SHESCAPE ''shescape'' Fn_shescapeFormat,
      entry RPMTD_FORMAT_ARRAYSIZE ''arraysize'' Fn_arraysizeFormat,
      \<lparr>ext_fmt = None, ext_name = None, ext_func = None\<rparr>]"

text \<open>
  The scan \<^verbatim>\<open>for (ext = rpmHeaderFormats; ext->name != NULL; ext++)\<close>: it stops at
  the entry without a name, and at the first match, whose \<^verbatim>\<open>func\<close> it returns.
\<close>

fun byName_scan :: "headerFormatFunc_s list \<Rightarrow> string \<Rightarrow> formatter option" where
  "byName_scan [] fmt = None"
| "byName_scan (ext # exts) fmt =
     (case ext_name ext of
        None \<Rightarrow> None
      | Some n \<Rightarrow> if n = fmt then ext_func ext else byName_scan exts fmt)"

definition rpmHeaderFormatFuncByName :: "string \<Rightarrow> formatter option" where
  "rpmHeaderFormatFuncByName fmt = byName_scan rpmHeaderFormats fmt"

fun byValue_scan :: "headerFormatFunc_s list \<Rightarrow> rpmtdFormats \<Rightarrow> formatter option" where
  "byValue_scan [] fmt = None"
| "byValue_scan (ext # exts) fmt =
     (case ext_name ext of
        None \<Rightarrow> None
      | Some n \<Rightarrow> if Some fmt = ext_fmt ext then ext_func ext else byValue_scan exts fmt)"

definition rpmHeaderFormatFuncByValue :: "rpmtdFormats \<Rightarrow> formatter option" where
  "rpmHeaderFormatFuncByValue fmt = byValue_scan rpmHeaderFormats fmt"

subsection \<open>The xml formatter\<close>

text \<open>
  Modelled from the spec: \<^verbatim>\<open>rpmtdFormat\<close> (rpmtd.c) is not part of the file. It
  resolves the format code through \<^verbatim>\<open>rpmHeaderFormatFuncByValue\<close> and calls the
  formatter with a fresh template \<^verbatim>\<open>%\<close>; the spec has the xml formatter render its
  inner text this way, through the string formatter or (Binary) the base64 formatter.
  Those are the two codes \<^verbatim>\<open>xmlFormat\<close> passes, and the only ones resolved here.
\<close>

definition rpmtdFormat :: "env \<Rightarrow> rpmtd \<Rightarrow> rpmtdFormats \<Rightarrow> fault + string option" where
  "rpmtdFormat e td fmt =
     (case rpmHeaderFormatFuncByValue fmt of
        Some Fn_stringFormat \<Rightarrow> fbind (stringFormat td ''%'') (\<lambda>r. Inr (fst r))
      | Some Fn_base64Format \<Rightarrow> fbind (base64Format e td ''%'') (\<lambda>r. Inr (fst r))
      | _ \<Rightarrow> Inl Unmodelled_format)"

text \<open>
  Modelled from the spec: \<^verbatim>\<open>rstrcat\<close> and \<^verbatim>\<open>rstrscat\<close> (rpmio/rpmstring.c) are not
  part of the file. They build the escaped text and the wrapped result of the spec's
  xml formatter: \<^verbatim>\<open>rstrcat\<close> appends to a string that may still be NULL,
  \<^verbatim>\<open>rstrscat\<close> concatenates its arguments up to the first NULL.
\<close>

definition rstrcat :: "string option \<Rightarrow> string \<Rightarrow> string option" where
  "rstrcat dest src = (case dest of None \<Rightarrow> Some src | Some d \<Rightarrow> Some (d @ src))"

fun rstrscat :: "string option list \<Rightarrow> string" where
  "rstrscat [] = []"
| "rstrscat (None # _) = []"
| "rstrscat (Some s # args) = s @ rstrscat args"

text \<open>The loop over \<^verbatim>\<open>s[i]\<close> of \<^verbatim>\<open>xmlFormat\<close>, \<open>new_s\<close> being the text built so far.\<close>

fun xml_loop :: "string \<Rightarrow> string option \<Rightarrow> string option" where
  "xml_loop [] new_s = new_s"
| "xml_loop (c # s) new_s =
     (if c = CHR ''<'' then xml_loop s (rstrcat new_s ''&lt;'')
      else if c = CHR ''>'' then xml_loop s (rstrcat new_s ''&gt;'')
      else if c = CHR ''&'' then xml_loop s (rstrcat new_s ''&amp;'')
      else xml_loop s (rstrcat new_s [c]))"

definition xml_class :: "rpmTagType \<Rightarrow> (string \<times> rpmtdFormats) option" where
  "xml_class ty =
     (case ty of
        RPM_I18NSTRING_TYPE \<Rightarrow> Some (''string'', RPMTD_FORMAT_STRING)
      | RPM_STRING_TYPE \<Rightarrow> Some (''string'', RPMTD_FORMAT_STRING)
      | RPM_STRING_ARRAY_TYPE \<Rightarrow> Some (''string'', RPMTD_FORMAT_STRING)
      | RPM_BIN_TYPE \<Rightarrow> Some (''base64'', RPMTD_FORMAT_BASE64)
      | RPM_CHAR_TYPE \<Rightarrow> Some (''integer'', RPMTD_FORMAT_STRING)
      | RPM_INT8_TYPE \<Rightarrow> Some (''integer'', RPMTD_FORMAT_STRING)
      | RPM_INT16_TYPE \<Rightarrow> Some (''integer'', RPMTD_FORMAT_STRING)
      | RPM_INT32_TYPE \<Rightarrow> Some (''integer'', RPMTD_FORMAT_STRING)
      | _ \<Rightarrow> None)"

definition xmlFormat :: "env \<Rightarrow> rpmtd \<Rightarrow> string \<Rightarrow> conv_result" where
  "xmlFormat e td formatPrefix =
     (case xml_class (rpmtdType td) of
        None \<Rightarrow> Inr (Some (gettext_msg ''(invalid xml type)''), formatPrefix)
      | Some (xtag, fmt) \<Rightarrow>
          fbind (rpmtdFormat e td fmt) (\<lambda>sp.
          fbind (deref sp) (\<lambda>s.
          let v = (if s = [] then rstrscat [Some [CHR 0x09, CHR ''<''], Some xtag, Some ''/>'', None]
                   else
                     (let new_s = xml_loop s None
                      in rstrscat [Some [CHR 0x09, CHR ''<''], Some xtag, Some ''>'', new_s,
                                   Some ''</'', Some xtag, Some ''>'', None]))
          in Inr (Some v, formatPrefix @ ''s''))))"

subsection \<open>The signature formatter\<close>

text \<open>
  Modelled from the spec: \<^verbatim>\<open>pgpGrab\<close> and \<^verbatim>\<open>pgpLen\<close> (inline functions of
  rpmio/rpmpgp.h) are not part of the file. The spec has the old packet format carry a
  length field selected by a 2-bit length type and the new format a
  variable-length-length encoding read from the bytes that follow; these are the
  big-endian number of (at most four) bytes and the one-, two- and five-byte length
  encodings of OpenPGP. \<open>pgpLen\<close> returns the size of the encoding and the length it
  encodes. A read past the bytes at hand is a fault.
\<close>

definition grab_be :: "8 word list \<Rightarrow> 32 word" where
  "grab_be bs = foldl (\<lambda>i b. push_bit 8 i OR ucast b) 0 bs"

definition pgpGrab :: "8 word list \<Rightarrow> nat \<Rightarrow> fault + 32 word" where
  "pgpGrab s nbytes =
     (let nb = (if nbytes \<le> 4 then nbytes else 4)
      in if length s < nb then Inl Out_of_bounds else Inr (grab_be (take nb s)))"

definition pgpLen :: "8 word list \<Rightarrow> fault + (nat \<times> nat)" where
  "pgpLen s =
     (case s of
        [] \<Rightarrow> Inl Out_of_bounds
      | s0 # r \<Rightarrow>
          if s0 < 192 then Inr (1, unat s0)
          else if s0 < 255 then
            (case r of
               [] \<Rightarrow> Inl Out_of_bounds
             | s1 # _ \<Rightarrow>
                 Inr (2, unat (push_bit 8 ((ucast s0 :: 32 word) - 192) + ucast s1 + 192)))
          else fbind (pgpGrab r 4) (\<lambda>g. Inr (5, unat g)))"

text \<open>
  The header decoding at the head of \<^verbatim>\<open>pgpsigFormat\<close>: the packet tag and
  \<^verbatim>\<open>pktlen\<close>, a \<^verbatim>\<open>size_t\<close> of 64 bits.
\<close>

definition pgpsig_header :: "8 word list \<Rightarrow> fault + (32 word \<times> nat)" where
  "pgpsig_header pkt =
     (case pkt of
        [] \<Rightarrow> Inl Out_of_bounds
      | b # rest \<Rightarrow>
          (let v = (ucast b :: 32 word)
           in if v AND 0x80 \<noteq> 0 then
                (if v AND 0x40 \<noteq> 0 then
                   fbind (pgpLen rest) (\<lambda>(plen, hlen).
                   Inr (v AND 0x3f, (1 + plen + hlen) mod 2 ^ 64))
                 else
                   (let plen = 2 ^ unat (v AND 0x3)
                    in fbind (pgpGrab rest plen) (\<lambda>hlen.
                       Inr (drop_bit 2 v AND 0xf, (1 + plen + unat hlen) mod 2 ^ 64))))
              else Inr (0, 0)))"

text \<open>
  The three pieces whose text depends on the signature: the two \<^verbatim>\<open>switch\<close>
  statements, whose default prints the id into the \<open>room\<close> left in the buffer, and
  the date, which \<^verbatim>\<open>strftime\<close> writes when \<^verbatim>\<open>localtime\<close> succeeds.
\<close>

definition pubkey_algo_text :: "pgpDigParams \<Rightarrow> nat \<Rightarrow> string" where
  "pubkey_algo_text sigp room =
     (if sig_pubkey_algo sigp = PGPPUBKEYALGO_DSA then ''DSA''
      else if sig_pubkey_algo sigp = PGPPUBKEYALGO_RSA then ''RSA''
      else c_snprintf_d room (unat (sig_pubkey_algo sigp)))"

definition hash_algo_text :: "pgpDigParams \<Rightarrow> nat \<Rightarrow> string" where
  "hash_algo_text sigp room =
     (if sig_hash_algo sigp = PGPHASHALGO_MD5 then ''MD5''
      else if sig_hash_algo sigp = PGPHASHALGO_SHA1 then ''SHA1''
      else c_snprintf_d room (unat (sig_hash_algo sigp)))"

definition date_text :: "env \<Rightarrow> pgpDigParams \<Rightarrow> nat \<Rightarrow> string" where
  "date_text e sigp room =
     (case localtime e (unat (sig_time sigp)) of
        None \<Rightarrow> []
      | Some tstruct \<Rightarrow> c_strftime e room ''%c'' tstruct)"

text \<open>
  One pass over the body after the label \<^verbatim>\<open>again\<close>, for a buffer of \<open>nb + 1\<close> bytes:
  \<open>t\<close> is the text written so far, so that \<^verbatim>\<open>t - val\<close> is its length. A pass ends
  with \<^verbatim>\<open>goto again\<close> or with the finished text.
\<close>

datatype pass_result = Again | Done string

definition pgpsig_pass :: "env \<Rightarrow> pgpDigParams \<Rightarrow> nat \<Rightarrow> pass_result" where
  "pgpsig_pass e sigp nb =
     (let t = pubkey_algo_text sigp nb
      in if length t + 5 \<ge> nb then Again
         else
           (let t = t @ ''/'';
                t = t @ hash_algo_text sigp (nb - length t)
            in if length t + length '', '' + 1 \<ge> nb then Again
               else
                 (let t = t @ '', '';
                      t = t @ date_text e sigp (nb - length t)
                  in if length t + length '', Key ID '' + 1 \<ge> nb then Again
                     else
                       (let t = t @ '', Key ID '';
                            tempstr = pgpHexStr (signid_bytes (sig_signid sigp))
                        in if length t + length tempstr > nb then Again
                           else Done (t @ tempstr)))))"

text \<open>The complete date text of the signature's creation time, empty when \<^verbatim>\<open>localtime\<close> fails.\<close>

definition sig_date :: "env \<Rightarrow> pgpDigParams \<Rightarrow> string" where
  "sig_date e sigp =
     (case localtime e (unat (sig_time sigp)) of
        None \<Rightarrow> []
      | Some tstruct \<Rightarrow> strftime_text e ''%c'' tstruct)"

text \<open>
  The loop that \<^verbatim>\<open>goto again\<close> forms: every round starts with \<^verbatim>\<open>nb += 100\<close>. It ends,
  because a pass asks for another round only while the buffer is shorter than the
  longest text the pieces can have.
\<close>

lemma show_nat_length3: "n < 1000 \<Longrightarrow> length (show_nat 10 n) \<le> 3"
  by (simp add: show_nat.simps [of 10 n] show_nat.simps [of 10 "n div 10"]
      show_nat.simps [of 10 "n div 10 div 10"] div_less_iff_less_mult)

lemma pgpHexStr_length: "length (pgpHexStr bs) = 2 * length bs"
  by (induction bs) (simp_all add: pgpHexStr_def hex_byte_def)

lemma signid_hex_length: "length (pgpHexStr (signid_bytes w)) = 16"
  by (simp add: pgpHexStr_length signid_bytes_def)

lemma c_strftime_length: "length (c_strftime e m f t) \<le> length (strftime_text e f t)"
  by (auto simp: c_strftime_def Let_def)

lemma pubkey_algo_text_length: "length (pubkey_algo_text sigp room) \<le> 3"
  using show_nat_length3 [of "unat (sig_pubkey_algo sigp)"]
    unsigned_less [of "sig_pubkey_algo sigp", where ?'a = nat]
  by (auto simp: pubkey_algo_text_def c_snprintf_d_def)

lemma hash_algo_text_length: "length (hash_algo_text sigp room) \<le> 4"
  using show_nat_length3 [of "unat (sig_hash_algo sigp)"]
    unsigned_less [of "sig_hash_algo sigp", where ?'a = nat]
  by (auto simp: hash_algo_text_def c_snprintf_d_def)

lemma date_text_length: "length (date_text e sigp room) \<le> length (sig_date e sigp)"
  by (simp add: date_text_def sig_date_def c_strftime_length split: option.split)

lemma pgpsig_pass_Again:
  assumes "pgpsig_pass e sigp nb = Again"
  shows "nb \<le> length (sig_date e sigp) + 35"
proof (rule ccontr)
  assume "\<not> ?thesis"
  then have big: "length (sig_date e sigp) + 35 < nb" by simp
  define a where "a = pubkey_algo_text sigp nb"
  define h where "h = hash_algo_text sigp (nb - length (a @ ''/''))"
  define d where "d = date_text e sigp (nb - length (a @ ''/'' @ h @ '', ''))"
  have la: "length a \<le> 3" unfolding a_def by (rule pubkey_algo_text_length)
  have lh: "length h \<le> 4" unfolding h_def by (rule hash_algo_text_length)
  have ld: "length d \<le> length (sig_date e sigp)" unfolding d_def by (rule date_text_length)
  have "pgpsig_pass e sigp nb \<noteq> Again"
    using big la lh ld
    by (simp add: pgpsig_pass_def Let_def signid_hex_length a_def [symmetric]
        h_def [symmetric, simplified] d_def [symmetric, simplified])
  with assms show False by simp
qed

function pgpsig_again :: "env \<Rightarrow> pgpDigParams \<Rightarrow> nat \<Rightarrow> string" where
  "pgpsig_again e sigp nb =
     (case pgpsig_pass e sigp (nb + 100) of
        Again \<Rightarrow> pgpsig_again e sigp (nb + 100)
      | Done v \<Rightarrow> v)"
  by pat_completeness auto
termination
  by (relation "measure (\<lambda>(e, sigp, nb). length (sig_date e sigp) + 36 - nb)")
     (auto dest: pgpsig_pass_Again)

declare pgpsig_again.simps [simp del]

definition not_a_signature :: string where
  "not_a_signature = gettext_msg ''(not an OpenPGP signature)''"

definition pgpsigFormat :: "env \<Rightarrow> rpmtd \<Rightarrow> string \<Rightarrow> conv_result" where
  "pgpsigFormat e td formatPrefix =
     (if rpmtdType td \<noteq> RPM_BIN_TYPE then Inr (Some not_a_blob, formatPrefix)
      else
        (let pkt = rpmtdData td
         in fbind (pgpsig_header pkt) (\<lambda>(tag, pktlen).
            if pktlen = 0 \<or> tag \<noteq> PGPTAG_SIGNATURE then Inr (Some not_a_signature, formatPrefix)
            else
              (let sigp = pgpPrtPkts e pkt pktlen
               in Inr (Some (pgpsig_again e sigp 0), formatPrefix)))))"

subsection \<open>Calling a formatter of the table\<close>

fun call_formatter :: "formatter \<Rightarrow> env \<Rightarrow> rpmtd \<Rightarrow> string \<Rightarrow> conv_result" where
  "call_formatter Fn_stringFormat e td p = stringFormat td p"
| "call_formatter Fn_armorFormat e td p = armorFormat e td p"
| "call_formatter Fn_base64Format e td p = base64Format e td p"
| "call_formatter Fn_pgpsigFormat e td p = pgpsigFormat e td p"
| "call_formatter Fn_depflagsFormat e td p = depflagsFormat td p"
| "call_formatter Fn_fflagsFormat e td p = fflagsFormat td p"
| "call_formatter Fn_permsFormat e td p = permsFormat e td p"
| "call_formatter Fn_triggertypeFormat e td p = triggertypeFormat td p"
| "call_formatter Fn_xmlFormat e td p = xmlFormat e td p"
| "call_formatter Fn_octalFormat e td p = octalFormat td p"
| "call_formatter Fn_hexFormat e td p = hexFormat td p"
| "call_formatter Fn_dateFormat e td p = dateFormat e td p"
| "call_formatter Fn_dayFormat e td p = dayFormat e td p"
| "call_formatter Fn_shescapeFormat e td p = shescapeFormat td p"
| "call_formatter Fn_arraysizeFormat e td p = arraysizeFormat td p"

subsection \<open>What the specification says, in its own words\<close>

text \<open>
  The single-pass rendering of a signature into an unbounded buffer: algorithm name,
  \<^verbatim>\<open>/\<close>, hash name, \<^verbatim>\<open>, \<close>, localized date, \<^verbatim>\<open>, Key ID \<close>, hex key id.
\<close>

definition algo_name :: "8 word \<Rightarrow> string" where
  "algo_name a =
     (if a = PGPPUBKEYALGO_DSA then ''DSA'' else if a = PGPPUBKEYALGO_RSA then ''RSA''
      else show_nat 10 (unat a))"

definition hash_name :: "8 word \<Rightarrow> string" where
  "hash_name h =
     (if h = PGPHASHALGO_MD5 then ''MD5'' else if h = PGPHASHALGO_SHA1 then ''SHA1''
      else show_nat 10 (unat h))"

definition single_pass :: "env \<Rightarrow> pgpDigParams \<Rightarrow> string" where
  "single_pass e sigp =
     algo_name (sig_pubkey_algo sigp) @ ''/'' @ hash_name (sig_hash_algo sigp) @ '', '' @
     sig_date e sigp @ '', Key ID '' @ pgpHexStr (signid_bytes (sig_signid sigp))"

text \<open>
  Evaluation of a POSIX shell word built from single-quoted parts and backslash-escaped
  characters: inside quotes (\<open>True\<close>) every character up to the closing quote stands
  for itself; outside, a backslash makes the next character stand for itself (and
  vanishes together with a newline). A word with an unquoted character of another kind,
  or an unclosed quote, has no value here.
\<close>

fun sh_eval :: "bool \<Rightarrow> string \<Rightarrow> string option" where
  "sh_eval False [] = Some []"
| "sh_eval True [] = None"
| "sh_eval True (c # cs) =
     (if c = CHR 0x27 then sh_eval False cs else map_option ((#) c) (sh_eval True cs))"
| "sh_eval False (c # cs) =
     (if c = CHR 0x27 then sh_eval True cs
      else if c = CHR 0x5C then
        (case cs of
           [] \<Rightarrow> None
         | d # ds \<Rightarrow> if d = CHR 0x0A then sh_eval False ds else map_option ((#) d) (sh_eval False ds))
      else None)"

text \<open>The quoting transform of the spec: each single quote becomes the four characters.\<close>

definition sh_quote :: "string \<Rightarrow> string" where
  "sh_quote s =
     [CHR 0x27] @
     concat (map (\<lambda>c. if c = CHR 0x27 then [CHR 0x27, CHR 0x5C, CHR 0x27, CHR 0x27] else [c]) s) @
     [CHR 0x27]"

text \<open>The escaping of the spec's xml formatter.\<close>

definition xml_escape :: "string \<Rightarrow> string" where
  "xml_escape s =
     concat (map (\<lambda>c. if c = CHR ''<'' then ''&lt;'' else if c = CHR ''>'' then ''&gt;''
                       else if c = CHR ''&'' then ''&amp;'' else [c]) s)"

text \<open>The file flags in their declared order, with the letter of each.\<close>

definition fflags_table :: "(32 word \<times> char) list" where
  "fflags_table =
     [(RPMFILE_DOC, CHR ''d''), (RPMFILE_CONFIG, CHR ''c''), (RPMFILE_SPECFILE, CHR ''s''),
      (RPMFILE_MISSINGOK, CHR ''m''), (RPMFILE_NOREPLACE, CHR ''n''), (RPMFILE_GHOST, CHR ''g''),
      (RPMFILE_LICENSE, CHR ''l''), (RPMFILE_README, CHR ''r'')]"

definition fflags_letters :: "32 word \<Rightarrow> string" where
  "fflags_letters v = map snd (filter (\<lambda>(flag, c). v AND flag \<noteq> 0) fflags_table)"

text \<open>The entries a lookup scans: those before the closing entry without a name.\<close>

definition named_entries :: "headerFormatFunc_s list" where
  "named_entries = takeWhile (\<lambda>ext. ext_name ext \<noteq> None) rpmHeaderFormats"

text \<open>A value of one of the three string kinds, with its content.\<close>

definition is_string_value :: "tagged_value \<Rightarrow> string \<Rightarrow> bool" where
  "is_string_value d s = (d = String s \<or> d = StringArray s \<or> d = I18nString s)"

text \<open>
  An old-format signature packet, by its first byte: bit 7 set, bit 6 clear, the four
  tag bits 2 (signature), and behind it the length field that the two length-type bits
  select.
\<close>

definition old_format_signature :: "8 word list \<Rightarrow> bool" where
  "old_format_signature pkt =
     (case pkt of
        [] \<Rightarrow> False
      | b # rest \<Rightarrow>
          bit b 7 \<and> \<not> bit b 6 \<and> drop_bit 2 b AND 0xf = 2
          \<and> min 4 (2 ^ unat (b AND 3)) \<le> length rest)"

text \<open>The signature parameters the formatter works on: those parsed from the packet.\<close>

definition parsed_signature :: "env \<Rightarrow> 8 word list \<Rightarrow> pgpDigParams option" where
  "parsed_signature e pkt =
     (case pgpsig_header pkt of
        Inl _ \<Rightarrow> None
      | Inr (tag, pktlen) \<Rightarrow> Some (pgpPrtPkts e pkt pktlen))"

text \<open>
  The template after a call: as the caller gave it, or with one conversion specifier
  appended. A result rendered through the template is the formatted output of the
  template with its specifier and the argument.
\<close>

definition specifiers :: "string list" where
  "specifiers = [''d'', ''u'', ''lu'', ''o'', ''x'', ''s'']"

definition renders_through :: "conv_result \<Rightarrow> string \<Rightarrow> string \<Rightarrow> printf_arg \<Rightarrow> bool" where
  "renders_through res p spec arg =
     (spec \<in> set specifiers
      \<and> res = fbind (rasprintf (p @ spec) arg) (\<lambda>v. Inr (Some v, p @ spec)))"

definition template_after :: "string \<Rightarrow> string \<Rightarrow> bool" where
  "template_after p p' = (p' = p \<or> p' \<in> set (map (\<lambda>spec. p @ spec) specifiers))"

subsection \<open>An environment for the examples\<close>

text \<open>
  A fixed environment: the base64 primitives and the armor wrapper fail, the parser
  reports a DSA/SHA1 signature made at the epoch, and the date texts are those of the C
  locale for the epoch in UTC.
\<close>

definition epoch_tm :: tm where
  "epoch_tm = \<lparr>tm_sec = 0, tm_min = 0, tm_hour = 0, tm_mday = 1, tm_mon = 0, tm_year = 70,
                tm_wday = 4, tm_yday = 0, tm_isdst = 0\<rparr>"

definition example_sig :: pgpDigParams where
  "example_sig = \<lparr>sig_pubkey_algo = 17, sig_hash_algo = 2, sig_time = 0,
                   sig_signid = 0x0123456789abcdef\<rparr>"

definition example_env :: env where
  "example_env =
     \<lparr>b64encode = (\<lambda>bs. None),
      b64decode = (\<lambda>s. None),
      pgpArmorWrap = (\<lambda>a bs. None),
      pgpPrtPkts = (\<lambda>pkt pktlen. example_sig),
      rpmPermsString = (\<lambda>mode. ''----------''),
      localtime = (\<lambda>t. Some epoch_tm),
      strftime_text = (\<lambda>format t. if format = ''%c'' then ''Thu Jan  1 00:00:00 1970''
                                  else ''Thu Jan 01 1970''),
      strftime_leftover = (\<lambda>maxsize format t. [])\<rparr>"

text \<open>The same with a date text of \<open>n\<close> bytes.\<close>

definition long_date_env :: "nat \<Rightarrow> env" where
  "long_date_env n = example_env\<lparr>strftime_text := (\<lambda>format t. replicate n CHR ''x'')\<rparr>"

section \<open>Properties\<close>

subsection \<open>Lookup by name\<close>

lemma byName_scan_find:
  "byName_scan exts n =
     (case find (\<lambda>ext. ext_name ext = Some n) (takeWhile (\<lambda>ext. ext_name ext \<noteq> None) exts) of
        None \<Rightarrow> None
      | Some ext \<Rightarrow> ext_func ext)"
  by (induction exts) (auto split: option.splits)

text \<open>
  C9. Lookup by name scans the table in declared order, up to the closing entry, and
  returns the formatter of the first entry whose name is the one asked for:
  \<^verbatim>\<open>permissions\<close> and \<^verbatim>\<open>perms\<close> resolve to the same formatter, and a name
  of no entry (\<^verbatim>\<open>nonexistent\<close>) resolves to no formatter at all (NULL), which is not a
  string.
\<close>

theorem lookup_by_name_first_match:
  "rpmHeaderFormatFuncByName ''permissions'' = Some Fn_permsFormat
   \<and> rpmHeaderFormatFuncByName ''perms'' = Some Fn_permsFormat
   \<and> rpmHeaderFormatFuncByName ''nonexistent'' = None
   \<and> rpmHeaderFormatFuncByName n =
       (case find (\<lambda>ext. ext_name ext = Some n) named_entries of
          None \<Rightarrow> None
        | Some ext \<Rightarrow> ext_func ext)"
proof -
  have "rpmHeaderFormatFuncByName ''permissions'' = Some Fn_permsFormat"
    by (simp add: rpmHeaderFormatFuncByName_def rpmHeaderFormats_def entry_def)
  moreover have "rpmHeaderFormatFuncByName ''perms'' = Some Fn_permsFormat"
    by (simp add: rpmHeaderFormatFuncByName_def rpmHeaderFormats_def entry_def)
  moreover have "rpmHeaderFormatFuncByName ''nonexistent'' = None"
    by (simp add: rpmHeaderFormatFuncByName_def rpmHeaderFormats_def entry_def)
  moreover have "rpmHeaderFormatFuncByName n =
       (case find (\<lambda>ext. ext_name ext = Some n) named_entries of
          None \<Rightarrow> None
        | Some ext \<Rightarrow> ext_func ext)"
    unfolding rpmHeaderFormatFuncByName_def named_entries_def by (rule byName_scan_find)
  ultimately show ?thesis by blast
qed

subsection \<open>Type-mismatch placeholders\<close>

text \<open>
  C6. For a tagged value whose kind is not Int32, each of the octal, hex, date, day,
  perms, triggertype, depflags and fflags formatters returns exactly the placeholder
  \<^verbatim>\<open>(not a number)\<close> (and leaves the template as it was).
\<close>

theorem not_a_number_placeholder:
  assumes "rpmtdType td \<noteq> RPM_INT32_TYPE"
  shows "octalFormat td p = Inr (Some ''(not a number)'', p)
       \<and> hexFormat td p = Inr (Some ''(not a number)'', p)
       \<and> dateFormat e td p = Inr (Some ''(not a number)'', p)
       \<and> dayFormat e td p = Inr (Some ''(not a number)'', p)
       \<and> permsFormat e td p = Inr (Some ''(not a number)'', p)
       \<and> triggertypeFormat td p = Inr (Some ''(not a number)'', p)
       \<and> depflagsFormat td p = Inr (Some ''(not a number)'', p)
       \<and> fflagsFormat td p = Inr (Some ''(not a number)'', p)"
  using assms
  by (simp add: octalFormat_def hexFormat_def dateFormat_def dayFormat_def realDateFormat_def
      permsFormat_def triggertypeFormat_def depflagsFormat_def fflagsFormat_def
      not_a_number_def gettext_msg_def)

theorem not_a_number_placeholder_witness:
  "rpmtdType \<lparr>td_data = String ''abc'', td_count = 1\<rparr> \<noteq> RPM_INT32_TYPE
   \<and> octalFormat \<lparr>td_data = String ''abc'', td_count = 1\<rparr> ''%'' = Inr (Some ''(not a number)'', ''%'')
   \<and> dateFormat example_env \<lparr>td_data = String ''abc'', td_count = 1\<rparr> ''%''
       = Inr (Some ''(not a number)'', ''%'')
   \<and> fflagsFormat \<lparr>td_data = String ''abc'', td_count = 1\<rparr> ''%'' = Inr (Some ''(not a number)'', ''%'')"
proof -
  have h: "rpmtdType \<lparr>td_data = String ''abc'', td_count = 1\<rparr> \<noteq> RPM_INT32_TYPE"
    by (simp add: rpmtdType_def)
  show ?thesis
    using h not_a_number_placeholder [OF h, of "''%''" example_env] by simp
qed

text \<open>
  C10. For a tagged value whose kind is not Binary, the pgpsig formatter returns exactly
  the placeholder \<^verbatim>\<open>(not a blob)\<close>, the one the base64 formatter returns for such a
  value, and not \<^verbatim>\<open>(not an OpenPGP signature)\<close>.
\<close>

theorem pgpsig_not_a_blob:
  assumes "rpmtdType td \<noteq> RPM_BIN_TYPE"
  shows "pgpsigFormat e td p = Inr (Some ''(not a blob)'', p)
       \<and> base64Format e td p = Inr (Some ''(not a blob)'', p)
       \<and> pgpsigFormat e td p \<noteq> Inr (Some ''(not an OpenPGP signature)'', p)"
  using assms
  by (simp add: pgpsigFormat_def base64Format_def not_a_blob_def gettext_msg_def)

theorem pgpsig_not_a_blob_witness:
  "rpmtdType \<lparr>td_data = Int32 7, td_count = 1\<rparr> \<noteq> RPM_BIN_TYPE
   \<and> pgpsigFormat example_env \<lparr>td_data = Int32 7, td_count = 1\<rparr> ''%'' = Inr (Some ''(not a blob)'', ''%'')
   \<and> base64Format example_env \<lparr>td_data = Int32 7, td_count = 1\<rparr> ''%'' = Inr (Some ''(not a blob)'', ''%'')"
proof -
  have h: "rpmtdType \<lparr>td_data = Int32 7, td_count = 1\<rparr> \<noteq> RPM_BIN_TYPE"
    by (simp add: rpmtdType_def)
  show ?thesis
    using h pgpsig_not_a_blob [OF h, of example_env "''%''"] by simp
qed

subsection \<open>Formatting through the bare template\<close>

lemma c_sprintf_bare_s: "c_sprintf ''%s'' (ArgStr (Some s)) = Inr s"
  by (simp add: c_sprintf_def is_flag_def is_digit_def render_conv_def str_field_def width_of_def)

lemma c_sprintf_bare_d: "c_sprintf ''%d'' (ArgInt w) = Inr (show_int (sint w))"
  by (auto simp add: c_sprintf_def is_flag_def is_digit_def render_conv_def num_field_def width_of_def show_int_def abs_if)

subsection \<open>File flags\<close>

lemma fflags_buf_letters: "fflags_buf v = fflags_letters v"
  by (simp add: fflags_buf_def fflags_letters_def fflags_table_def strcat_if_def Let_def)

lemma fflags_letters_subseq: "subseq (fflags_letters v) ''dcsmnglr''"
proof -
  have "subseq (map snd (filter (\<lambda>(flag, c). v AND flag \<noteq> 0) fflags_table)) (map snd fflags_table)"
    by (intro subseq_map subseq_filter_left)
  then show ?thesis by (simp add: fflags_letters_def fflags_table_def)
qed

text \<open>
  C8. For an Int32 value read as a set of file flags, the fflags formatter emits one
  letter for each flag that is set, in the fixed order d, c, s, m, n, g, l, r (doc,
  config, specfile, missing-ok, noreplace, ghost, license, readme) whatever the bits
  are, and no letter for a clear bit: with the template \<^verbatim>\<open>%\<close> the result is exactly
  those letters, with any template it is their rendering through the template extended
  by \<^verbatim>\<open>s\<close>. A value with only the GHOST and DOC bits renders \<^verbatim>\<open>dg\<close>.
\<close>

theorem fflags_fixed_order:
  "fflagsFormat \<lparr>td_data = Int32 v, td_count = n\<rparr> ''%'' = Inr (Some (fflags_letters v), ''%s'')
   \<and> fflagsFormat \<lparr>td_data = Int32 v, td_count = n\<rparr> p =
       fbind (rasprintf (p @ ''s'') (ArgStr (Some (fflags_letters v)))) (\<lambda>r. Inr (Some r, p @ ''s''))
   \<and> subseq (fflags_letters v) ''dcsmnglr''
   \<and> fflagsFormat \<lparr>td_data = Int32 (RPMFILE_GHOST OR RPMFILE_DOC), td_count = n\<rparr> ''%''
       = Inr (Some ''dg'', ''%s'')"
proof -
  have gen: "fflagsFormat \<lparr>td_data = Int32 w, td_count = n\<rparr> q =
       fbind (rasprintf (q @ ''s'') (ArgStr (Some (fflags_letters w)))) (\<lambda>r. Inr (Some r, q @ ''s''))" for w q
    by (simp add: fflagsFormat_def rpmtdType_def deref_def fbind_def fflags_buf_letters)
  have bare: "fflagsFormat \<lparr>td_data = Int32 w, td_count = n\<rparr> ''%'' = Inr (Some (fflags_letters w), ''%s'')" for w
    by (simp add: gen rasprintf_def c_sprintf_bare_s fbind_def)
  have dg: "fflags_letters (RPMFILE_GHOST OR RPMFILE_DOC) = ''dg''"
    by (simp add: fflags_letters_def fflags_table_def RPMFILE_GHOST_def RPMFILE_DOC_def
        RPMFILE_CONFIG_def RPMFILE_SPECFILE_def RPMFILE_MISSINGOK_def RPMFILE_NOREPLACE_def
        RPMFILE_LICENSE_def RPMFILE_README_def)
  show ?thesis
    using gen [of v p] bare [of v] bare [of "RPMFILE_GHOST OR RPMFILE_DOC"] dg fflags_letters_subseq [of v]
    by simp
qed

subsection \<open>The xml formatter on strings\<close>

lemma xml_loop_escape:
  "xml_loop s new_s =
     (if s = [] then new_s else Some ((case new_s of None \<Rightarrow> [] | Some a \<Rightarrow> a) @ xml_escape s))"
  by (induction s arbitrary: new_s) (auto simp: xml_escape_def rstrcat_def split: option.splits)

lemma byValue_string: "rpmHeaderFormatFuncByValue RPMTD_FORMAT_STRING = Some Fn_stringFormat"
  by (simp add: rpmHeaderFormatFuncByValue_def rpmHeaderFormats_def entry_def)

lemma byValue_base64: "rpmHeaderFormatFuncByValue RPMTD_FORMAT_BASE64 = Some Fn_base64Format"
  by (simp add: rpmHeaderFormatFuncByValue_def rpmHeaderFormats_def entry_def)

lemma stringFormat_string:
  assumes "is_string_value (td_data td) s"
  shows "stringFormat td ''%'' = Inr (Some s, ''%s'')"
  using assms
  by (auto simp: is_string_value_def stringFormat_def rpmtdType_def rasprintf_def c_sprintf_bare_s fbind_def)

text \<open>
  C7. For a value of a string kind, the xml formatter replaces every \<^verbatim>\<open><\<close> by
  \<^verbatim>\<open>&lt;\<close>, every \<^verbatim>\<open>>\<close> by \<^verbatim>\<open>&gt;\<close> and every \<^verbatim>\<open>&\<close> by \<^verbatim>\<open>&amp;\<close>, keeps every
  other byte, and wraps the text as a tab followed by \<^verbatim>\<open><string>...</string>\<close>; an
  empty text gives a tab followed by \<^verbatim>\<open><string/>\<close>. The text \<^verbatim>\<open>a<b&c\<close> is escaped to
  \<^verbatim>\<open>a&lt;b&amp;c\<close>.
\<close>

theorem xml_string_escaping:
  assumes "is_string_value (td_data td) s"
  shows "xmlFormat e td p =
           Inr (Some (if s = [] then [CHR 0x09] @ ''<string/>''
                      else [CHR 0x09] @ ''<string>'' @ xml_escape s @ ''</string>''), p @ ''s'')
         \<and> xml_escape ''a<b&c'' = ''a&lt;b&amp;c''"
proof -
  have cls: "xml_class (rpmtdType td) = Some (''string'', RPMTD_FORMAT_STRING)"
    using assms by (auto simp: is_string_value_def xml_class_def rpmtdType_def)
  have inner: "rpmtdFormat e td RPMTD_FORMAT_STRING = Inr (Some s)"
    by (simp add: rpmtdFormat_def byValue_string stringFormat_string [OF assms] fbind_def)
  have "xmlFormat e td p =
           Inr (Some (if s = [] then [CHR 0x09] @ ''<string/>''
                      else [CHR 0x09] @ ''<string>'' @ xml_escape s @ ''</string>''), p @ ''s'')"
    by (simp add: xmlFormat_def cls inner fbind_def deref_def xml_loop_escape Let_def)
  moreover have "xml_escape ''a<b&c'' = ''a&lt;b&amp;c''"
    by (simp add: xml_escape_def)
  ultimately show ?thesis by simp
qed

theorem xml_string_escaping_witness:
  "is_string_value (td_data \<lparr>td_data = String ''a<b&c'', td_count = 1\<rparr>) ''a<b&c''
   \<and> xmlFormat example_env \<lparr>td_data = String ''a<b&c'', td_count = 1\<rparr> ''%''
       = Inr (Some ([CHR 0x09] @ ''<string>a&lt;b&amp;c</string>''), ''%s'')
   \<and> is_string_value (td_data \<lparr>td_data = I18nString [], td_count = 1\<rparr>) []
   \<and> xmlFormat example_env \<lparr>td_data = I18nString [], td_count = 1\<rparr> ''%''
       = Inr (Some ([CHR 0x09] @ ''<string/>''), ''%s'')"
proof -
  have h: "is_string_value (td_data \<lparr>td_data = String ''a<b&c'', td_count = 1\<rparr>) ''a<b&c''"
    by (simp add: is_string_value_def)
  have h0: "is_string_value (td_data \<lparr>td_data = I18nString [], td_count = 1\<rparr>) []"
    by (simp add: is_string_value_def)
  show ?thesis
    using h h0 xml_string_escaping [OF h, of example_env "''%''"]
      xml_string_escaping [OF h0, of example_env "''%''"]
    by simp
qed

subsection \<open>Shell escaping\<close>

lemma shescape_loop_concat:
  "shescape_loop src dst =
     dst @ concat (map (\<lambda>c. if c = CHR 0x27 then [CHR 0x27, CHR 0x5C, CHR 0x27, CHR 0x27] else [c]) src)"
  by (induction src arbitrary: dst) simp_all

lemma shescape_loop_quote: "shescape_loop buf [CHR 0x27] @ [CHR 0x27] = sh_quote buf"
  by (simp add: shescape_loop_concat sh_quote_def)

lemma sh_eval_quoted_body:
  "sh_eval True
     (concat (map (\<lambda>c. if c = CHR 0x27 then [CHR 0x27, CHR 0x5C, CHR 0x27, CHR 0x27] else [c]) s)
      @ [CHR 0x27]) = Some s"
  by (induction s) simp_all

lemma sh_eval_sh_quote: "sh_eval False (sh_quote s) = Some s"
  by (simp add: sh_quote_def sh_eval_quoted_body)

lemma sh_quote_length: "length (sh_quote s) + 1 \<le> 4 * length s + 3"
  by (induction s) (simp_all add: sh_quote_def)

lemma rpmtdGetString_string: "is_string_value (td_data td) s \<Longrightarrow> rpmtdGetString td = Some s"
  by (auto simp: is_string_value_def)

lemma rpmtdType_string: "is_string_value (td_data td) s \<Longrightarrow> rpmtdType td \<noteq> RPM_INT32_TYPE"
  by (auto simp: is_string_value_def rpmtdType_def)

lemma c_sprintf_width5_ab: "c_sprintf ''%5s'' (ArgStr (Some ''ab'')) = Inr ''   ab''"
  by (simp add: c_sprintf_def is_flag_def is_digit_def render_conv_def str_field_def width_of_def
      digit_val_def eval_nat_numeral)

text \<open>
  C4, as amended. For a value of a string kind with content \<open>s\<close>, the shescape
  formatter renders \<open>s\<close> through the caller's template with \<^verbatim>\<open>s\<close> appended and returns
  the single-quoted shell word of that rendering \<open>b\<close>, in which each single quote of
  \<open>b\<close> is the four characters quote, backslash, quote, quote; the word evaluates back
  to exactly \<open>b\<close>. With the bare template \<^verbatim>\<open>%\<close> the rendering is \<open>s\<close> itself, so the
  word evaluates back to exactly \<open>s\<close>; \<^verbatim>\<open>O'Brien\<close> gives \<^verbatim>\<open>'O'\''Brien'\<close>. For an
  Int32 value the formatter renders the signed decimal integer through the template
  with \<^verbatim>\<open>d\<close> appended, without quotes.
\<close>

theorem shescape_round_trip:
  assumes "is_string_value (td_data td) s"
  shows "shescapeFormat td p =
           fbind (rasprintf (p @ ''s'') (ArgStr (Some s))) (\<lambda>b. Inr (Some (sh_quote b), p @ ''s''))
       \<and> (\<forall>b. rasprintf (p @ ''s'') (ArgStr (Some s)) = Inr b \<longrightarrow>
              shescapeFormat td p = Inr (Some (sh_quote b), p @ ''s'') \<and> sh_eval False (sh_quote b) = Some b)
       \<and> sh_eval False (sh_quote t) = Some t
       \<and> shescapeFormat td ''%'' = Inr (Some (sh_quote s), ''%s'')
       \<and> sh_eval False (sh_quote s) = Some s
       \<and> sh_quote ''O'Brien'' = [CHR 0x27] @ ''O'' @ [CHR 0x27, CHR 0x5C, CHR 0x27, CHR 0x27] @ ''Brien'' @ [CHR 0x27]
       \<and> shescapeFormat \<lparr>td_data = Int32 w, td_count = n\<rparr> q =
           fbind (rasprintf (q @ ''d'') (ArgInt w)) (\<lambda>v. Inr (Some v, q @ ''d''))
       \<and> shescapeFormat \<lparr>td_data = Int32 w, td_count = n\<rparr> ''%'' = Inr (Some (show_int (sint w)), ''%d'')"
proof -
  note str = rpmtdGetString_string [OF assms] rpmtdType_string [OF assms]
  have through: "shescapeFormat td q =
           fbind (rasprintf (q @ ''s'') (ArgStr (Some s))) (\<lambda>b. Inr (Some (sh_quote b), q @ ''s''))" for q
    using str by (simp add: shescapeFormat_def fbind_def shescape_loop_quote split: sum.split)
  have gen: "shescapeFormat td q = Inr (Some (sh_quote b), q @ ''s'')"
    if "rasprintf (q @ ''s'') (ArgStr (Some s)) = Inr b" for q b
    using that by (simp add: through fbind_def)
  have bare: "shescapeFormat td ''%'' = Inr (Some (sh_quote s), ''%s'')"
    using gen [of "''%''" s] by (simp add: rasprintf_def c_sprintf_bare_s)
  have ex: "sh_quote ''O'Brien'' = [CHR 0x27] @ ''O'' @ [CHR 0x27, CHR 0x5C, CHR 0x27, CHR 0x27] @ ''Brien'' @ [CHR 0x27]"
    by (simp add: sh_quote_def)
  have numq: "shescapeFormat \<lparr>td_data = Int32 w, td_count = n\<rparr> q =
           fbind (rasprintf (q @ ''d'') (ArgInt w)) (\<lambda>v. Inr (Some v, q @ ''d''))"
    by (simp add: shescapeFormat_def rpmtdType_def deref_def fbind_def)
  have num: "shescapeFormat \<lparr>td_data = Int32 w, td_count = n\<rparr> ''%'' = Inr (Some (show_int (sint w)), ''%d'')"
    by (simp add: shescapeFormat_def rpmtdType_def deref_def fbind_def rasprintf_def c_sprintf_bare_d)
  show ?thesis
    apply (intro conjI)
    subgoal by (rule through)
    subgoal using gen by (simp add: sh_eval_sh_quote)
    subgoal by (rule sh_eval_sh_quote)
    subgoal by (rule bare)
    subgoal by (rule sh_eval_sh_quote)
    subgoal by (rule ex)
    subgoal by (rule numq)
    subgoal by (rule num)
    done
qed

theorem shescape_round_trip_witness:
  "is_string_value (td_data \<lparr>td_data = String ''O'Brien'', td_count = 1\<rparr>) ''O'Brien''
   \<and> shescapeFormat \<lparr>td_data = String ''O'Brien'', td_count = 1\<rparr> ''%''
       = Inr (Some ([CHR 0x27] @ ''O'' @ [CHR 0x27, CHR 0x5C, CHR 0x27, CHR 0x27] @ ''Brien'' @ [CHR 0x27]), ''%s'')
   \<and> sh_eval False ([CHR 0x27] @ ''O'' @ [CHR 0x27, CHR 0x5C, CHR 0x27, CHR 0x27] @ ''Brien'' @ [CHR 0x27])
       = Some ''O'Brien''
   \<and> shescapeFormat \<lparr>td_data = Int32 (- 5), td_count = 1\<rparr> ''%'' = Inr (Some ''-5'', ''%d'')"
proof -
  have h: "is_string_value (td_data \<lparr>td_data = String ''O'Brien'', td_count = 1\<rparr>) ''O'Brien''"
    by (simp add: is_string_value_def)
  have five: "show_int (sint (- 5 :: 32 word)) = ''-5''"
    by (simp add: show_int_def show_nat.simps digit_char_def)
  from shescape_round_trip [OF h, of "''%''" "''O'Brien''" "- 5" 1 "''%''"]
  have "shescapeFormat \<lparr>td_data = String ''O'Brien'', td_count = 1\<rparr> ''%''
          = Inr (Some (sh_quote ''O'Brien''), ''%s'')"
    and "sh_eval False (sh_quote ''O'Brien'') = Some ''O'Brien''"
    and "sh_quote ''O'Brien'' = [CHR 0x27] @ ''O'' @ [CHR 0x27, CHR 0x5C, CHR 0x27, CHR 0x27] @ ''Brien'' @ [CHR 0x27]"
    and "shescapeFormat \<lparr>td_data = Int32 (- 5), td_count = 1\<rparr> ''%''
          = Inr (Some (show_int (sint (- 5 :: 32 word))), ''%d'')"
    by blast+
  with h five show ?thesis by simp
qed

text \<open>
  C4 as stated fails for a template that carries a field width: with the template
  \<^verbatim>\<open>%5\<close> the string \<^verbatim>\<open>ab\<close> is padded to five characters before it is quoted, so the
  word the formatter returns evaluates to the padded text and not to \<^verbatim>\<open>ab\<close>.
\<close>

theorem shescape_width_counterexample:
  "is_string_value (td_data \<lparr>td_data = String ''ab'', td_count = 1\<rparr>) ''ab''
   \<and> shescapeFormat \<lparr>td_data = String ''ab'', td_count = 1\<rparr> ''%5''
       = Inr (Some ([CHR 0x27] @ ''   ab'' @ [CHR 0x27]), ''%5s'')
   \<and> sh_eval False ([CHR 0x27] @ ''   ab'' @ [CHR 0x27]) = Some ''   ab''
   \<and> sh_eval False ([CHR 0x27] @ ''   ab'' @ [CHR 0x27]) \<noteq> Some ''ab''"
proof -
  have "is_string_value (td_data \<lparr>td_data = String ''ab'', td_count = 1\<rparr>) ''ab''"
    by (simp add: is_string_value_def)
  moreover have "shescapeFormat \<lparr>td_data = String ''ab'', td_count = 1\<rparr> ''%5''
       = Inr (Some ([CHR 0x27] @ ''   ab'' @ [CHR 0x27]), ''%5s'')"
    by (simp add: shescapeFormat_def rpmtdType_def fbind_def rasprintf_def c_sprintf_width5_ab)
  moreover have "sh_eval False ([CHR 0x27] @ ''   ab'' @ [CHR 0x27]) = Some ''   ab''"
    by simp
  ultimately show ?thesis by simp
qed

subsection \<open>The signature formatter: header and placeholder\<close>

lemma first_byte_bit7: "((ucast (b :: 8 word) :: 32 word) AND 0x80 = 0) = (\<not> bit b 7)"
proof -
  have "((ucast b :: 32 word) AND 2 ^ 7 = 0) = (\<not> bit (ucast b :: 32 word) 7)"
    by (rule and_exp_eq_0_iff_not_bit)
  then show ?thesis by (simp add: bit_ucast_iff)
qed

lemma first_byte_bit6: "((ucast (b :: 8 word) :: 32 word) AND 0x40 = 0) = (\<not> bit b 6)"
proof -
  have "((ucast b :: 32 word) AND 2 ^ 6 = 0) = (\<not> bit (ucast b :: 32 word) 6)"
    by (rule and_exp_eq_0_iff_not_bit)
  then show ?thesis by (simp add: bit_ucast_iff)
qed

lemma first_byte_tag: "drop_bit 2 (ucast (b :: 8 word) :: 32 word) AND 0xf = ucast (drop_bit 2 b AND 0xf)"
proof -
  have "(ucast (drop_bit 2 b AND 0xf) :: 32 word) = ucast (drop_bit 2 b) AND ucast (0xf :: 8 word)"
    by (rule unsigned_and_eq)
  moreover have "(ucast (drop_bit 2 b) :: 32 word) = drop_bit 2 (ucast b)"
    by (simp add: ucast_drop_bit_eq)
  ultimately show ?thesis by simp
qed

lemma length_type_le: "unat ((ucast (b :: 8 word) :: 32 word) AND 0x3) \<le> 3"
proof -
  have "(ucast b :: 32 word) AND 3 \<le> 3" by (rule word_and_le1)
  then have "unat ((ucast b :: 32 word) AND 3) \<le> unat (3 :: 32 word)" by (simp add: word_le_nat_alt)
  then show ?thesis by simp
qed

lemma unat_ucast_8_32: "unat (ucast (x :: 8 word) :: 32 word) = unat x"
proof -
  have "unat (ucast x :: 32 word) = take_bit 32 (unat x)"
    by (simp add: unsigned_ucast_eq)
  moreover have "unat x < 2 ^ 32"
    using unsigned_less [of x, where ?'a = nat] by simp
  ultimately show ?thesis by (simp add: take_bit_nat_eq_self)
qed

lemma length_type_ucast: "unat ((ucast (b :: 8 word) :: 32 word) AND 0x3) = unat (b AND 3)"
proof -
  have "(ucast (b AND 3) :: 32 word) = ucast b AND ucast (3 :: 8 word)"
    by (rule unsigned_and_eq)
  then have "(ucast b :: 32 word) AND 3 = ucast (b AND 3)" by simp
  then show ?thesis by (simp add: unat_ucast_8_32)
qed

lemma header_bit7_clear: "\<not> bit b 7 \<Longrightarrow> pgpsig_header (b # rest) = Inr (0, 0)"
  by (simp add: pgpsig_header_def first_byte_bit7)

lemma pgpGrab_ok:
  "(if n \<le> 4 then n else 4) \<le> length s \<Longrightarrow> \<exists>g. pgpGrab s n = Inr g"
  by (simp add: pgpGrab_def Let_def)

lemma header_old_format:
  assumes "old_format_signature (b # rest)"
  shows "\<exists>pktlen. pgpsig_header (b # rest) = Inr (PGPTAG_SIGNATURE, pktlen) \<and> pktlen \<noteq> 0"
proof -
  from assms have b7: "bit b 7" and b6: "\<not> bit b 6" and tag: "drop_bit 2 b AND 0xf = 2"
    and len: "min 4 (2 ^ unat (b AND 3)) \<le> length rest"
    by (simp_all add: old_format_signature_def)
  define plen :: nat where "plen = 2 ^ unat ((ucast b :: 32 word) AND 0x3)"
  have plen8: "plen \<le> 8"
  proof -
    have "plen \<le> 2 ^ 3" unfolding plen_def by (rule power_increasing) (simp_all add: length_type_le)
    then show ?thesis by simp
  qed
  have "(if plen \<le> 4 then plen else 4) \<le> length rest"
    using len by (simp add: plen_def length_type_ucast min_def split: if_splits)
  then obtain g where g: "pgpGrab rest plen = Inr g"
    using pgpGrab_ok by blast
  have "unat g < 2 ^ 32" using unsigned_less [of g, where ?'a = nat] by simp
  then have small: "1 + plen + unat g < 2 ^ 64" using plen8 by simp
  have "pgpsig_header (b # rest) = Inr (PGPTAG_SIGNATURE, 1 + plen + unat g)"
    using b7 b6 g small
    by (simp add: pgpsig_header_def Let_def first_byte_bit7 first_byte_bit6 first_byte_tag tag fbind_def PGPTAG_SIGNATURE_def plen_def [symmetric])
  then show ?thesis by auto
qed

lemma pgpsig_again_rounds:
  "\<exists>k. (\<forall>j<k. pgpsig_pass e sigp (nb + 100 * Suc j) = Again)
       \<and> pgpsig_pass e sigp (nb + 100 * Suc k) = Done (pgpsig_again e sigp nb)"
proof (induction e sigp nb rule: pgpsig_again.induct)
  case (1 e sigp nb)
  show ?case
  proof (cases "pgpsig_pass e sigp (nb + 100)")
    case Again
    from "1.IH" [OF Again] obtain k where
      k: "\<forall>j<k. pgpsig_pass e sigp (nb + 100 + 100 * Suc j) = Again"
         "pgpsig_pass e sigp (nb + 100 + 100 * Suc k) = Done (pgpsig_again e sigp (nb + 100))"
      by blast
    have res: "pgpsig_again e sigp nb = pgpsig_again e sigp (nb + 100)"
      by (subst pgpsig_again.simps) (simp add: Again)
    have "\<forall>j<Suc k. pgpsig_pass e sigp (nb + 100 * Suc j) = Again"
    proof (intro allI impI)
      fix j assume "j < Suc k"
      show "pgpsig_pass e sigp (nb + 100 * Suc j) = Again"
      proof (cases j)
        case 0
        then show ?thesis using Again by simp
      next
        case (Suc j')
        with \<open>j < Suc k\<close> have "j' < k" by simp
        with k(1) have "pgpsig_pass e sigp (nb + 100 + 100 * Suc j') = Again" by blast
        then show ?thesis using Suc by (simp add: add.assoc)
      qed
    qed
    moreover have "pgpsig_pass e sigp (nb + 100 * Suc (Suc k)) = Done (pgpsig_again e sigp nb)"
      using k(2) res by (simp add: add.assoc)
    ultimately show ?thesis by blast
  next
    case (Done v)
    have "pgpsig_again e sigp nb = v"
      by (subst pgpsig_again.simps) (simp add: Done)
    then show ?thesis using Done by (intro exI [of _ 0]) simp
  qed
qed

lemma pgpsig_pass_prefix:
  assumes "pgpsig_pass e sigp nb = Done r"
    and "sig_pubkey_algo sigp = PGPPUBKEYALGO_DSA" and "sig_hash_algo sigp = PGPHASHALGO_SHA1"
  shows "take 10 r = ''DSA/SHA1, ''"
  using assms
  by (auto simp: pgpsig_pass_def Let_def pubkey_algo_text_def hash_algo_text_def
      PGPHASHALGO_SHA1_def PGPHASHALGO_MD5_def split: if_splits)

lemma pgpsig_again_prefix:
  assumes "sig_pubkey_algo sigp = PGPPUBKEYALGO_DSA" and "sig_hash_algo sigp = PGPHASHALGO_SHA1"
  shows "take 10 (pgpsig_again e sigp nb) = ''DSA/SHA1, ''"
proof -
  obtain k where "pgpsig_pass e sigp (nb + 100 * Suc k) = Done (pgpsig_again e sigp nb)"
    using pgpsig_again_rounds by blast
  then show ?thesis using assms by (rule pgpsig_pass_prefix)
qed

lemma example_header: "pgpsig_header [0x88, 3, 1, 2, 3] = Inr (PGPTAG_SIGNATURE, 5)"
  by (simp add: pgpsig_header_def pgpGrab_def grab_be_def fbind_def PGPTAG_SIGNATURE_def Let_def)

lemma example_hex: "pgpHexStr (signid_bytes (sig_signid example_sig)) = ''0123456789abcdef''"
  by (simp add: example_sig_def signid_bytes_def pgpHexStr_def hex_byte_def digit_char_def)

lemma example_sigp [simp]:
  "sig_pubkey_algo example_sig = PGPPUBKEYALGO_DSA" "sig_hash_algo example_sig = PGPHASHALGO_SHA1"
  "sig_time example_sig = 0"
  by (simp_all add: example_sig_def PGPPUBKEYALGO_DSA_def PGPHASHALGO_SHA1_def)

lemma example_pass:
  "pgpsig_pass example_env example_sig 100
     = Done ''DSA/SHA1, Thu Jan  1 00:00:00 1970, Key ID 0123456789abcdef''"
  by (simp add: pgpsig_pass_def pubkey_algo_text_def hash_algo_text_def date_text_def
      c_strftime_def example_env_def PGPHASHALGO_SHA1_def PGPHASHALGO_MD5_def example_hex Let_def)

lemma example_again:
  "pgpsig_again example_env example_sig 0
     = ''DSA/SHA1, Thu Jan  1 00:00:00 1970, Key ID 0123456789abcdef''"
  by (subst pgpsig_again.simps) (simp add: example_pass)

lemma example_result:
  "pgpsigFormat example_env \<lparr>td_data = Binary [0x88, 3, 1, 2, 3], td_count = 5\<rparr> ''%''
     = Inr (Some ''DSA/SHA1, Thu Jan  1 00:00:00 1970, Key ID 0123456789abcdef'', ''%'')"
proof -
  have "pgpPrtPkts example_env [0x88, 3, 1, 2, 3] 5 = example_sig"
    by (simp add: example_env_def)
  then show ?thesis
    by (simp add: pgpsigFormat_def rpmtdType_def example_header fbind_def Let_def
        PGPTAG_SIGNATURE_def example_again)
qed

text \<open>
  C5. For a Binary value whose first byte has bit 7 clear, the pgpsig formatter returns
  exactly \<^verbatim>\<open>(not an OpenPGP signature)\<close>. For a Binary value that is an old-format
  signature packet whose parsed public-key algorithm is DSA and hash algorithm is SHA1,
  it returns a string that starts with \<^verbatim>\<open>DSA/SHA1, \<close>.
\<close>

theorem pgpsig_summary:
  "(td_data td = Binary (b # rest) \<and> \<not> bit b 7 \<longrightarrow>
      pgpsigFormat e td p = Inr (Some ''(not an OpenPGP signature)'', p))
   \<and> (td_data td = Binary pkt \<and> old_format_signature pkt
       \<and> parsed_signature e pkt = Some sigp
       \<and> sig_pubkey_algo sigp = PGPPUBKEYALGO_DSA \<and> sig_hash_algo sigp = PGPHASHALGO_SHA1 \<longrightarrow>
      (\<exists>r. pgpsigFormat e td p = Inr (Some r, p) \<and> take 10 r = ''DSA/SHA1, ''))"
proof (intro conjI impI)
  assume "td_data td = Binary (b # rest) \<and> \<not> bit b 7"
  then show "pgpsigFormat e td p = Inr (Some ''(not an OpenPGP signature)'', p)"
    by (simp add: pgpsigFormat_def rpmtdType_def header_bit7_clear fbind_def
        not_a_signature_def gettext_msg_def)
next
  assume a: "td_data td = Binary pkt \<and> old_format_signature pkt
       \<and> parsed_signature e pkt = Some sigp
       \<and> sig_pubkey_algo sigp = PGPPUBKEYALGO_DSA \<and> sig_hash_algo sigp = PGPHASHALGO_SHA1"
  then obtain b rest where pkt: "pkt = b # rest"
    by (cases pkt) (simp_all add: old_format_signature_def)
  with a obtain pktlen where h: "pgpsig_header pkt = Inr (PGPTAG_SIGNATURE, pktlen)" "pktlen \<noteq> 0"
    using header_old_format [of b rest] by auto
  with a have sigp: "sigp = pgpPrtPkts e pkt pktlen"
    by (simp add: parsed_signature_def)
  have "pgpsigFormat e td p = Inr (Some (pgpsig_again e sigp 0), p)"
    using a h sigp by (simp add: pgpsigFormat_def rpmtdType_def fbind_def Let_def)
  moreover have "take 10 (pgpsig_again e sigp 0) = ''DSA/SHA1, ''"
    using a by (intro pgpsig_again_prefix) simp_all
  ultimately show "\<exists>r. pgpsigFormat e td p = Inr (Some r, p) \<and> take 10 r = ''DSA/SHA1, ''"
    by blast
qed

theorem pgpsig_summary_witness:
  "\<not> bit (0x08 :: 8 word) 7
   \<and> pgpsigFormat example_env \<lparr>td_data = Binary [0x08, 3, 1, 2, 3], td_count = 5\<rparr> ''%''
       = Inr (Some ''(not an OpenPGP signature)'', ''%'')
   \<and> old_format_signature [0x88, 3, 1, 2, 3]
   \<and> parsed_signature example_env [0x88, 3, 1, 2, 3] = Some example_sig
   \<and> (\<exists>r. pgpsigFormat example_env \<lparr>td_data = Binary [0x88, 3, 1, 2, 3], td_count = 5\<rparr> ''%''
            = Inr (Some r, ''%'') \<and> take 10 r = ''DSA/SHA1, '')
   \<and> pgpsigFormat example_env \<lparr>td_data = Binary [0x88, 3, 1, 2, 3], td_count = 5\<rparr> ''%''
       = Inr (Some ''DSA/SHA1, Thu Jan  1 00:00:00 1970, Key ID 0123456789abcdef'', ''%'')"
proof -
  note example_result
  moreover have b: "\<not> bit (0x08 :: 8 word) 7" by simp
  have old: "old_format_signature [0x88, 3, 1, 2, 3]"
    by (simp add: old_format_signature_def)
  have parsed: "parsed_signature example_env [0x88, 3, 1, 2, 3] = Some example_sig"
    by (simp add: parsed_signature_def example_header example_env_def)
  ultimately show ?thesis
    using old parsed
      pgpsig_summary [of "\<lparr>td_data = Binary [0x08, 3, 1, 2, 3], td_count = 5\<rparr>" "0x08" "[3, 1, 2, 3]"
        example_env "''%''"]
      pgpsig_summary [of "\<lparr>td_data = Binary [0x88, 3, 1, 2, 3], td_count = 5\<rparr>" _ _
        example_env "''%''" "[0x88, 3, 1, 2, 3]" example_sig]
    by simp
qed

subsection \<open>The signature formatter: the retry loop\<close>

lemma algo_name_length: "length (algo_name a) \<le> 3"
  using show_nat_length3 [of "unat a"] unsigned_less [of a, where ?'a = nat]
  by (auto simp: algo_name_def)

lemma hash_name_length: "length (hash_name h) \<le> 4"
  using show_nat_length3 [of "unat h"] unsigned_less [of h, where ?'a = nat]
  by (auto simp: hash_name_def)

lemma pubkey_algo_text_room:
  "4 \<le> room \<Longrightarrow> pubkey_algo_text sigp room = algo_name (sig_pubkey_algo sigp)"
  using show_nat_length3 [of "unat (sig_pubkey_algo sigp)"]
    unsigned_less [of "sig_pubkey_algo sigp", where ?'a = nat]
  by (auto simp: pubkey_algo_text_def algo_name_def c_snprintf_d_def)

lemma hash_algo_text_room:
  "4 \<le> room \<Longrightarrow> hash_algo_text sigp room = hash_name (sig_hash_algo sigp)"
  using show_nat_length3 [of "unat (sig_hash_algo sigp)"]
    unsigned_less [of "sig_hash_algo sigp", where ?'a = nat]
  by (auto simp: hash_algo_text_def hash_name_def c_snprintf_d_def)

lemma date_text_fits:
  "length (sig_date e sigp) < room \<Longrightarrow> date_text e sigp room = sig_date e sigp"
  by (auto simp: date_text_def sig_date_def c_strftime_def Let_def split: option.split)

lemma single_pass_length:
  "length (single_pass e sigp) =
     length (algo_name (sig_pubkey_algo sigp)) + length (hash_name (sig_hash_algo sigp))
     + length (sig_date e sigp) + 28"
  by (simp add: single_pass_def signid_hex_length)

lemma pgpsig_pass_fits:
  assumes "length (algo_name (sig_pubkey_algo sigp)) + length (hash_name (sig_hash_algo sigp))
           + length (sig_date e sigp) + 3 < nb"
  shows "pgpsig_pass e sigp nb =
           (if nb \<le> length (single_pass e sigp) - 15 \<or> nb < length (single_pass e sigp) then Again
            else Done (single_pass e sigp))"
proof -
  define a where "a = algo_name (sig_pubkey_algo sigp)"
  define h where "h = hash_name (sig_hash_algo sigp)"
  define d where "d = sig_date e sigp"
  have nb: "length a + length h + length d + 3 < nb"
    using assms by (simp add: a_def h_def d_def)
  have ta: "pubkey_algo_text sigp nb = a"
    unfolding a_def using nb by (intro pubkey_algo_text_room) simp
  have th: "hash_algo_text sigp room = h" if "4 \<le> room" for room
    unfolding h_def using that by (intro hash_algo_text_room)
  have td: "date_text e sigp room = d" if "length d < room" for room
    unfolding d_def using that by (intro date_text_fits) (simp add: d_def)
  have sp: "single_pass e sigp = a @ ''/'' @ h @ '', '' @ d @ '', Key ID '' @ pgpHexStr (signid_bytes (sig_signid sigp))"
    by (simp add: single_pass_def a_def h_def d_def)
  show ?thesis
    using nb
    by (simp add: pgpsig_pass_def Let_def ta th td sp signid_hex_length)
qed

lemma long_date_env_simps [simp]:
  "pgpPrtPkts (long_date_env n) pkt pktlen = example_sig"
  "localtime (long_date_env n) t = Some epoch_tm"
  "strftime_text (long_date_env n) f tstruct = replicate n CHR ''x''"
  "strftime_leftover (long_date_env n) m f tstruct = []"
  by (simp_all add: long_date_env_def example_env_def)

lemma long_date_sig_date [simp]: "sig_date (long_date_env n) example_sig = replicate n CHR ''x''"
  by (simp add: sig_date_def)

text \<open>
  Where the date text fits the space that the first buffer of 100 bytes has left after
  the algorithm name, the hash name and their separators, the loop refines the
  single-pass rendering: it ends after at most one restart and the formatter returns
  exactly the algorithm name, \<^verbatim>\<open>/\<close>, hash name, \<^verbatim>\<open>, \<close>, date, \<^verbatim>\<open>, Key ID \<close> and hex
  key id; whether it restarted does not show in the result.
\<close>

theorem pgpsig_retry_loop:
  assumes "td_data td = Binary pkt"
    and "pgpsig_header pkt = Inr (PGPTAG_SIGNATURE, pktlen)" and "pktlen \<noteq> 0"
    and "sigp = pgpPrtPkts e pkt pktlen"
    and "length (algo_name (sig_pubkey_algo sigp)) + length (hash_name (sig_hash_algo sigp))
         + length (sig_date e sigp) + 3 < 100"
  shows "pgpsigFormat e td p = Inr (Some (single_pass e sigp), p)
       \<and> (pgpsig_pass e sigp 100 = Done (single_pass e sigp)
          \<or> pgpsig_pass e sigp 100 = Again \<and> pgpsig_pass e sigp 200 = Done (single_pass e sigp))
       \<and> (\<exists>k. (\<forall>j<k. pgpsig_pass e sigp (100 * Suc j) = Again)
              \<and> pgpsig_pass e sigp (100 * Suc k) = Done (pgpsig_again e sigp 0))"
proof -
  have len: "length (single_pass e sigp) \<le> 124"
    using assms(5) by (simp add: single_pass_length)
  have fits200: "length (algo_name (sig_pubkey_algo sigp)) + length (hash_name (sig_hash_algo sigp))
         + length (sig_date e sigp) + 3 < 200"
    using assms(5) by simp
  have p200: "pgpsig_pass e sigp 200 = Done (single_pass e sigp)"
    using len by (simp add: pgpsig_pass_fits [OF fits200])
  have p100: "pgpsig_pass e sigp 100 = Done (single_pass e sigp) \<or> pgpsig_pass e sigp 100 = Again"
    by (simp add: pgpsig_pass_fits [OF assms(5)])
  have loop: "pgpsig_again e sigp 0 = single_pass e sigp"
  proof -
    have second: "pgpsig_again e sigp 100 = single_pass e sigp"
      by (subst pgpsig_again.simps) (simp add: p200)
    from p100 show ?thesis
    proof
      assume "pgpsig_pass e sigp 100 = Done (single_pass e sigp)"
      then show ?thesis by (subst pgpsig_again.simps) simp
    next
      assume "pgpsig_pass e sigp 100 = Again"
      then show ?thesis by (subst pgpsig_again.simps) (simp add: second)
    qed
  qed
  have "pgpsigFormat e td p = Inr (Some (pgpsig_again e (pgpPrtPkts e pkt pktlen) 0), p)"
    using assms(1-3) by (simp add: pgpsigFormat_def rpmtdType_def fbind_def Let_def)
  then have fmt: "pgpsigFormat e td p = Inr (Some (single_pass e sigp), p)"
    using loop by (simp add: assms(4))
  have rounds: "\<exists>k. (\<forall>j<k. pgpsig_pass e sigp (100 * Suc j) = Again)
              \<and> pgpsig_pass e sigp (100 * Suc k) = Done (pgpsig_again e sigp 0)"
    using pgpsig_again_rounds [of e sigp 0] by simp
  from fmt p100 p200 rounds show ?thesis by blast
qed

lemma example_names:
  "algo_name PGPPUBKEYALGO_DSA = ''DSA''"
  "hash_name PGPHASHALGO_SHA1 = ''SHA1''"
  by (simp_all add: algo_name_def hash_name_def PGPHASHALGO_SHA1_def PGPHASHALGO_MD5_def)

theorem pgpsig_retry_loop_witness:
  "pgpsig_header [0x88, 3, 1, 2, 3] = Inr (PGPTAG_SIGNATURE, 5)
   \<and> length (algo_name (sig_pubkey_algo example_sig)) + length (hash_name (sig_hash_algo example_sig))
         + length (sig_date (long_date_env 89) example_sig) + 3 < 100
   \<and> pgpsig_pass (long_date_env 89) example_sig 100 = Again
   \<and> pgpsigFormat (long_date_env 89) \<lparr>td_data = Binary [0x88, 3, 1, 2, 3], td_count = 5\<rparr> ''%''
       = Inr (Some (''DSA/SHA1, '' @ replicate 89 CHR ''x'' @ '', Key ID 0123456789abcdef''), ''%'')"
proof -
  have d: "length (algo_name (sig_pubkey_algo example_sig)) + length (hash_name (sig_hash_algo example_sig))
         + length (sig_date (long_date_env 89) example_sig) + 3 < 100"
    by (simp add: example_names)
  have s: "example_sig = pgpPrtPkts (long_date_env 89) [0x88, 3, 1, 2, 3] 5" by simp
  have sp: "single_pass (long_date_env 89) example_sig
              = ''DSA/SHA1, '' @ replicate 89 CHR ''x'' @ '', Key ID 0123456789abcdef''"
    by (simp add: single_pass_def example_names example_hex)
  have again: "pgpsig_pass (long_date_env 89) example_sig 100 = Again"
    by (simp add: pgpsig_pass_fits [OF d] sp)
  from pgpsig_retry_loop [OF _ example_header _ s d, of "\<lparr>td_data = Binary [0x88, 3, 1, 2, 3], td_count = 5\<rparr>" "''%''"]
  have "pgpsigFormat (long_date_env 89) \<lparr>td_data = Binary [0x88, 3, 1, 2, 3], td_count = 5\<rparr> ''%''
       = Inr (Some (single_pass (long_date_env 89) example_sig), ''%'')"
    by simp
  with example_header d again sp show ?thesis by simp
qed

text \<open>
  C1. The retry loop should return the single-pass rendering of the signature, date
  included: the formatter is documented to display the signature fingerprint and time.
  It does not where the date text does not fit the space left in the first buffer. The
  slack checks look only at the text already written, and \<^verbatim>\<open>strftime\<close> is called with
  the space left and its failure discarded, so no restart is asked for on the date's
  account, although the check that follows the call is there to restart. With a date
  text of 95 bytes and a \<^verbatim>\<open>strftime\<close> that leaves the destination as it found it, the
  first pass completes and the formatter returns the text without the date, which is
  not the single-pass rendering.
\<close>

theorem pgpsig_drops_long_date:
  "pgpsig_header [0x88, 3, 1, 2, 3] = Inr (PGPTAG_SIGNATURE, 5)
   \<and> pgpPrtPkts (long_date_env 95) [0x88, 3, 1, 2, 3] 5 = example_sig
   \<and> pgpsig_pass (long_date_env 95) example_sig 100 = Done ''DSA/SHA1, , Key ID 0123456789abcdef''
   \<and> pgpsigFormat (long_date_env 95) \<lparr>td_data = Binary [0x88, 3, 1, 2, 3], td_count = 5\<rparr> ''%''
       = Inr (Some ''DSA/SHA1, , Key ID 0123456789abcdef'', ''%'')
   \<and> single_pass (long_date_env 95) example_sig
       = ''DSA/SHA1, '' @ replicate 95 CHR ''x'' @ '', Key ID 0123456789abcdef''
   \<and> pgpsigFormat (long_date_env 95) \<lparr>td_data = Binary [0x88, 3, 1, 2, 3], td_count = 5\<rparr> ''%''
       \<noteq> Inr (Some (single_pass (long_date_env 95) example_sig), ''%'')"
proof -
  have pass: "pgpsig_pass (long_date_env 95) example_sig 100
                = Done ''DSA/SHA1, , Key ID 0123456789abcdef''"
    by (simp add: pgpsig_pass_def pubkey_algo_text_def hash_algo_text_def date_text_def
        c_strftime_def PGPHASHALGO_SHA1_def PGPHASHALGO_MD5_def example_hex Let_def)
  have again: "pgpsig_again (long_date_env 95) example_sig 0 = ''DSA/SHA1, , Key ID 0123456789abcdef''"
    by (subst pgpsig_again.simps) (simp add: pass)
  have fmt: "pgpsigFormat (long_date_env 95) \<lparr>td_data = Binary [0x88, 3, 1, 2, 3], td_count = 5\<rparr> ''%''
       = Inr (Some ''DSA/SHA1, , Key ID 0123456789abcdef'', ''%'')"
    by (simp add: pgpsigFormat_def rpmtdType_def example_header fbind_def Let_def
        PGPTAG_SIGNATURE_def again)
  have sp: "single_pass (long_date_env 95) example_sig
              = ''DSA/SHA1, '' @ replicate 95 CHR ''x'' @ '', Key ID 0123456789abcdef''"
    by (simp add: single_pass_def algo_name_def hash_name_def example_hex PGPHASHALGO_SHA1_def
        PGPHASHALGO_MD5_def)
  have "length ''DSA/SHA1, , Key ID 0123456789abcdef''
          \<noteq> length (single_pass (long_date_env 95) example_sig)"
    by (simp add: sp)
  then have ne: "''DSA/SHA1, , Key ID 0123456789abcdef'' \<noteq> single_pass (long_date_env 95) example_sig"
    by metis
  show ?thesis
    using example_header pass fmt sp ne by simp
qed

subsection \<open>The template\<close>

lemma fbind_Inr: "fbind m f = Inr y \<Longrightarrow> \<exists>x. m = Inr x \<and> f x = Inr y"
  by (cases m) (simp_all add: fbind_def)

lemma template_stringFormat: "stringFormat td p = Inr (r, p') \<Longrightarrow> template_after p p'"
  by (auto simp: stringFormat_def template_after_def specifiers_def dest!: fbind_Inr
      split: rpmTagType.splits)

lemma template_octalFormat: "octalFormat td p = Inr (r, p') \<Longrightarrow> template_after p p'"
  by (auto simp: octalFormat_def template_after_def specifiers_def dest!: fbind_Inr split: if_splits)

lemma template_hexFormat: "hexFormat td p = Inr (r, p') \<Longrightarrow> template_after p p'"
  by (auto simp: hexFormat_def template_after_def specifiers_def dest!: fbind_Inr split: if_splits)

lemma template_realDateFormat: "realDateFormat e td p f = Inr (r, p') \<Longrightarrow> template_after p p'"
  by (auto simp: realDateFormat_def Let_def template_after_def specifiers_def dest!: fbind_Inr
      split: if_splits)

lemma template_shescapeFormat: "shescapeFormat td p = Inr (r, p') \<Longrightarrow> template_after p p'"
  by (auto simp: shescapeFormat_def template_after_def specifiers_def dest!: fbind_Inr split: if_splits)

lemma template_triggertypeFormat: "triggertypeFormat td p = Inr (r, p') \<Longrightarrow> p' = p"
  by (auto simp: triggertypeFormat_def Let_def dest!: fbind_Inr split: if_splits)

lemma template_permsFormat: "permsFormat e td p = Inr (r, p') \<Longrightarrow> template_after p p'"
  by (auto simp: permsFormat_def template_after_def specifiers_def dest!: fbind_Inr split: if_splits)

lemma template_fflagsFormat: "fflagsFormat td p = Inr (r, p') \<Longrightarrow> template_after p p'"
  by (auto simp: fflagsFormat_def template_after_def specifiers_def dest!: fbind_Inr split: if_splits)

lemma template_depflagsFormat: "depflagsFormat td p = Inr (r, p') \<Longrightarrow> template_after p p'"
  by (auto simp: depflagsFormat_def template_after_def specifiers_def dest!: fbind_Inr split: if_splits)

lemma template_armorFormat: "armorFormat e td p = Inr (r, p') \<Longrightarrow> p' = p"
  by (auto simp: armorFormat_def dest!: fbind_Inr split: rpmTagType.splits option.splits)

lemma template_base64Format: "base64Format e td p = Inr (r, p') \<Longrightarrow> template_after p p'"
  by (auto simp: base64Format_def template_after_def specifiers_def dest!: fbind_Inr
      split: if_splits option.splits)

lemma template_arraysizeFormat: "arraysizeFormat td p = Inr (r, p') \<Longrightarrow> template_after p p'"
  by (auto simp: arraysizeFormat_def template_after_def specifiers_def dest!: fbind_Inr)

lemma template_xmlFormat: "xmlFormat e td p = Inr (r, p') \<Longrightarrow> template_after p p'"
  by (auto simp: xmlFormat_def Let_def template_after_def specifiers_def dest!: fbind_Inr
      split: option.splits)

lemma template_pgpsigFormat: "pgpsigFormat e td p = Inr (r, p') \<Longrightarrow> p' = p"
  by (auto simp: pgpsigFormat_def Let_def dest!: fbind_Inr split: if_splits)

lemma template_after_refl: "template_after p p"
  by (simp add: template_after_def)

lemma template_call_formatter:
  "call_formatter f e td p = Inr (r, p') \<Longrightarrow> template_after p p'"
  by (cases f)
     (auto simp: dateFormat_def dayFormat_def template_after_refl
        intro: template_stringFormat template_octalFormat template_hexFormat template_realDateFormat
          template_shescapeFormat template_permsFormat template_fflagsFormat
          template_depflagsFormat template_base64Format template_arraysizeFormat template_xmlFormat
        dest!: template_triggertypeFormat template_armorFormat template_pgpsigFormat)

lemma untouched_triggertypeFormat:
  "triggertypeFormat td p = Inr (r, p') \<Longrightarrow> p' = p \<and> triggertypeFormat td q = Inr (r, q)"
  by (auto simp: triggertypeFormat_def Let_def fbind_def split: if_splits sum.splits)

lemma untouched_armorFormat:
  "armorFormat e td p = Inr (r, p') \<Longrightarrow> p' = p \<and> armorFormat e td q = Inr (r, q)"
  by (auto simp: armorFormat_def fbind_def split: rpmTagType.splits option.splits sum.splits)

lemma untouched_pgpsigFormat:
  "pgpsigFormat e td p = Inr (r, p') \<Longrightarrow> p' = p \<and> pgpsigFormat e td q = Inr (r, q)"
  by (auto simp: pgpsigFormat_def Let_def fbind_def split: if_splits sum.splits)

lemma xmlFormat_template:
  "xmlFormat e td p = Inr (r, p') \<Longrightarrow>
     (p' = p \<or> p' = p @ ''s'') \<and> (\<exists>q'. xmlFormat e td q = Inr (r, q'))"
  by (auto simp: xmlFormat_def Let_def fbind_def split: option.splits sum.splits)

lemma int32_renders:
  assumes "td_data td = Int32 w"
  shows "renders_through (stringFormat td p) p ''u'' (ArgInt w)"
    and "renders_through (octalFormat td p) p ''o'' (ArgInt w)"
    and "renders_through (hexFormat td p) p ''x'' (ArgInt w)"
    and "renders_through (shescapeFormat td p) p ''d'' (ArgInt w)"
    and "renders_through (permsFormat e td p) p ''s'' (ArgStr (Some (rpmPermsString e w)))"
    and "renders_through (fflagsFormat td p) p ''s'' (ArgStr (Some (fflags_buf w)))"
    and "renders_through (depflagsFormat td p) p ''s'' (ArgStr (Some (depflags_buf w)))"
    and "renders_through (dateFormat e td p) p ''s''
           (ArgStr (Some (case localtime e (unat w) of None \<Rightarrow> []
                          | Some tstruct \<Rightarrow> c_strftime e (50 - 1) ''%c'' tstruct)))"
    and "renders_through (dayFormat e td p) p ''s''
           (ArgStr (Some (case localtime e (unat w) of None \<Rightarrow> []
                          | Some tstruct \<Rightarrow> c_strftime e (50 - 1) ''%a %b %d %Y'' tstruct)))"
  using assms
  by (simp_all add: renders_through_def specifiers_def stringFormat_def octalFormat_def
      hexFormat_def shescapeFormat_def permsFormat_def fflagsFormat_def depflagsFormat_def
      dateFormat_def dayFormat_def realDateFormat_def rpmtdType_def deref_def fbind_def Let_def
      gettext_msg_def)

lemma string_renders:
  assumes "is_string_value (td_data td) s"
  shows "renders_through (stringFormat td p) p ''s'' (ArgStr (Some s))"
    and "shescapeFormat td p =
           fbind (rasprintf (p @ ''s'') (ArgStr (Some s))) (\<lambda>b. Inr (Some (sh_quote b), p @ ''s''))"
  using assms
  by (auto simp: is_string_value_def renders_through_def specifiers_def stringFormat_def
      shescapeFormat_def rpmtdType_def fbind_def shescape_loop_quote split: sum.splits)

lemma binary_renders:
  assumes "td_data td = Binary bs"
  shows "renders_through (stringFormat td p) p ''s'' (ArgStr (Some (pgpHexStr bs)))"
    and "b64encode e bs = Some enc \<Longrightarrow>
           renders_through (base64Format e td p) p ''s'' (ArgStr (Some enc))"
  using assms
  by (simp_all add: renders_through_def specifiers_def stringFormat_def base64Format_def
      rpmtdType_def)

lemma arraysize_renders:
  "renders_through (arraysizeFormat td p) p ''u'' (ArgInt (rpmtdCount td))"
  by (simp add: renders_through_def specifiers_def arraysizeFormat_def)

lemma xmlFormat_accepted:
  "xml_class (rpmtdType td) \<noteq> None \<Longrightarrow> xmlFormat e td p = Inr (r, p') \<Longrightarrow>
     p' = p @ ''s'' \<and> xmlFormat e td q = Inr (r, q @ ''s'')"
  by (auto simp: xmlFormat_def Let_def fbind_def split: option.splits sum.splits)

lemma other_int_renders:
  "td_data td = CharVal c \<Longrightarrow> renders_through (stringFormat td p) p ''u'' (ArgInt (scast c))"
  "td_data td = Int8 c \<Longrightarrow> renders_through (stringFormat td p) p ''u'' (ArgInt (scast c))"
  "td_data td = Int16 h \<Longrightarrow> renders_through (stringFormat td p) p ''u'' (ArgInt (ucast h))"
  "td_data td = Int64 l \<Longrightarrow> renders_through (stringFormat td p) p ''lu'' (ArgLong l)"
  by (simp_all add: renders_through_def specifiers_def stringFormat_def rpmtdType_def deref_def
      fbind_def)

lemma show_nat_8_8: "show_nat 8 8 = ''10''"
  by (simp add: show_nat.simps digit_char_def)

lemma c_sprintf_bare_o_8: "c_sprintf ''%o'' (ArgInt 8) = Inr ''10''"
  by (simp add: c_sprintf_def is_flag_def is_digit_def render_conv_def num_field_def width_of_def
      show_nat_8_8)

lemma show_nat_max32: "show_nat 10 4294967295 = ''4294967295''"
  by (simp add: show_nat.simps digit_char_def)

lemma unat_minus_1_32: "unat (- 1 :: 32 word) = 4294967295"
  by (simp add: unsigned_minus_1_eq_mask mask_eq_exp_minus_1)

lemma c_sprintf_bare_u_max: "c_sprintf ''%u'' (ArgInt (- 1)) = Inr ''4294967295''"
  by (simp add: c_sprintf_def is_flag_def is_digit_def render_conv_def num_field_def width_of_def
      show_nat_max32 unat_minus_1_32)

lemma stringFormat_char_ff:
  "stringFormat \<lparr>td_data = CharVal 0xff, td_count = 1\<rparr> ''%'' = Inr (Some ''4294967295'', ''%u'')"
  by (simp add: stringFormat_def rpmtdType_def deref_def fbind_def rasprintf_def c_sprintf_bare_u_max)

text \<open>
  C2, as amended. No formatter alters the text of the caller's template: after a call
  the template is as it was or has one conversion specifier appended. On the values
  they accept, the string, octal, hex, date, day, shescape, perms, fflags, depflags and
  arraysize formatters, and the base64 formatter when the encoder succeeds, append
  exactly one specifier and render the result through the extended template (shescape
  on a string: the quoting of that rendering). The string formatter passes a Char or
  Int8 byte to \<^verbatim>\<open>%u\<close> as a plain \<^verbatim>\<open>char\<close>, sign-extended to the 32-bit argument,
  and an Int16 value zero-extended. The xml formatter appends \<^verbatim>\<open>s\<close> to the
  template but its result does not depend on the template; the triggertype, armor and
  pgpsig formatters leave the template as it was and do not use it.
\<close>

theorem template_discipline:
  "(call_formatter f e td p = Inr (r, p') \<longrightarrow> template_after p p')
   \<and> (f \<in> {Fn_triggertypeFormat, Fn_armorFormat, Fn_pgpsigFormat}
        \<and> call_formatter f e td p = Inr (r, p') \<longrightarrow>
      p' = p \<and> call_formatter f e td q = Inr (r, q))
   \<and> (xml_class (rpmtdType td) \<noteq> None \<and> xmlFormat e td p = Inr (r, p') \<longrightarrow>
      p' = p @ ''s'' \<and> xmlFormat e td q = Inr (r, q @ ''s''))
   \<and> (td_data td = Int32 w \<longrightarrow>
        renders_through (stringFormat td p) p ''u'' (ArgInt w)
      \<and> renders_through (octalFormat td p) p ''o'' (ArgInt w)
      \<and> renders_through (hexFormat td p) p ''x'' (ArgInt w)
      \<and> renders_through (shescapeFormat td p) p ''d'' (ArgInt w)
      \<and> renders_through (permsFormat e td p) p ''s'' (ArgStr (Some (rpmPermsString e w)))
      \<and> renders_through (fflagsFormat td p) p ''s'' (ArgStr (Some (fflags_buf w)))
      \<and> renders_through (depflagsFormat td p) p ''s'' (ArgStr (Some (depflags_buf w)))
      \<and> renders_through (dateFormat e td p) p ''s''
           (ArgStr (Some (case localtime e (unat w) of None \<Rightarrow> []
                          | Some tstruct \<Rightarrow> c_strftime e (50 - 1) ''%c'' tstruct)))
      \<and> renders_through (dayFormat e td p) p ''s''
           (ArgStr (Some (case localtime e (unat w) of None \<Rightarrow> []
                          | Some tstruct \<Rightarrow> c_strftime e (50 - 1) ''%a %b %d %Y'' tstruct))))
   \<and> (is_string_value (td_data td) s \<longrightarrow>
        renders_through (stringFormat td p) p ''s'' (ArgStr (Some s))
      \<and> shescapeFormat td p =
           fbind (rasprintf (p @ ''s'') (ArgStr (Some s))) (\<lambda>b. Inr (Some (sh_quote b), p @ ''s'')))
   \<and> (td_data td = Binary bs \<longrightarrow>
        renders_through (stringFormat td p) p ''s'' (ArgStr (Some (pgpHexStr bs)))
      \<and> (b64encode e bs = Some enc \<longrightarrow>
            renders_through (base64Format e td p) p ''s'' (ArgStr (Some enc))))
   \<and> (td_data td = CharVal c \<or> td_data td = Int8 c \<longrightarrow>
        renders_through (stringFormat td p) p ''u'' (ArgInt (scast c)))
   \<and> (td_data td = Int16 h \<longrightarrow> renders_through (stringFormat td p) p ''u'' (ArgInt (ucast h)))
   \<and> (td_data td = Int64 l \<longrightarrow> renders_through (stringFormat td p) p ''lu'' (ArgLong l))
   \<and> renders_through (arraysizeFormat td p) p ''u'' (ArgInt (rpmtdCount td))"
proof -
  have c1: "call_formatter f e td p = Inr (r, p') \<longrightarrow> template_after p p'"
    by (blast intro: template_call_formatter)
  have c2: "f \<in> {Fn_triggertypeFormat, Fn_armorFormat, Fn_pgpsigFormat}
        \<and> call_formatter f e td p = Inr (r, p') \<longrightarrow>
      p' = p \<and> call_formatter f e td q = Inr (r, q)"
    by (auto dest: untouched_triggertypeFormat [where q = q] untouched_armorFormat [where q = q]
        untouched_pgpsigFormat [where q = q])
  have c3: "xml_class (rpmtdType td) \<noteq> None \<and> xmlFormat e td p = Inr (r, p') \<longrightarrow>
      p' = p @ ''s'' \<and> xmlFormat e td q = Inr (r, q @ ''s'')"
    using xmlFormat_accepted [of td e p r p' q] by blast
  show ?thesis
    apply (intro conjI)
    subgoal using c1 .
    subgoal using c2 .
    subgoal using c3 .
    subgoal by (auto intro!: int32_renders)
    subgoal by (auto intro!: string_renders)
    subgoal by (auto intro!: binary_renders)
    subgoal using other_int_renders(1,2) [of td c p] by blast
    subgoal using other_int_renders(3) [of td h p] by blast
    subgoal using other_int_renders(4) [of td l p] by blast
    subgoal by (rule arraysize_renders)
    done
qed

theorem template_discipline_witness:
  "call_formatter Fn_octalFormat example_env \<lparr>td_data = Int32 8, td_count = 1\<rparr> ''%''
     = Inr (Some ''10'', ''%o'')
   \<and> template_after ''%'' ''%o''
   \<and> renders_through (octalFormat \<lparr>td_data = Int32 8, td_count = 1\<rparr> ''%'') ''%'' ''o'' (ArgInt 8)
   \<and> call_formatter Fn_triggertypeFormat example_env \<lparr>td_data = Int32 0x10000, td_count = 1\<rparr> ''%''
       = Inr (Some ''in'', ''%'')
   \<and> call_formatter Fn_triggertypeFormat example_env \<lparr>td_data = Int32 0x10000, td_count = 1\<rparr> ''%-20''
       = Inr (Some ''in'', ''%-20'')
   \<and> is_string_value (td_data \<lparr>td_data = String ''abc'', td_count = 1\<rparr>) ''abc''
   \<and> renders_through (stringFormat \<lparr>td_data = String ''abc'', td_count = 1\<rparr> ''%-20'') ''%-20'' ''s''
        (ArgStr (Some ''abc''))
   \<and> renders_through (stringFormat \<lparr>td_data = CharVal 0xff, td_count = 1\<rparr> ''%'') ''%'' ''u''
        (ArgInt (- 1))
   \<and> stringFormat \<lparr>td_data = CharVal 0xff, td_count = 1\<rparr> ''%'' = Inr (Some ''4294967295'', ''%u'')"
proof -
  have oct: "call_formatter Fn_octalFormat example_env \<lparr>td_data = Int32 8, td_count = 1\<rparr> ''%''
     = Inr (Some ''10'', ''%o'')"
    by (simp add: octalFormat_def rpmtdType_def deref_def fbind_def rasprintf_def c_sprintf_bare_o_8)
  have trig: "call_formatter Fn_triggertypeFormat example_env \<lparr>td_data = Int32 0x10000, td_count = 1\<rparr> ''%''
       = Inr (Some ''in'', ''%'')"
    by (simp add: triggertypeFormat_def rpmtdType_def deref_def fbind_def Let_def
        RPMSENSE_TRIGGERPREIN_def RPMSENSE_TRIGGERIN_def)
  have str: "is_string_value (td_data \<lparr>td_data = String ''abc'', td_count = 1\<rparr>) ''abc''"
    by (simp add: is_string_value_def)
  show ?thesis
    using oct trig str
      template_discipline [of Fn_octalFormat example_env "\<lparr>td_data = Int32 8, td_count = 1\<rparr>"
        "''%''" "Some ''10''" "''%o''" "''%''" 8]
      template_discipline [of Fn_triggertypeFormat example_env
        "\<lparr>td_data = Int32 0x10000, td_count = 1\<rparr>" "''%''" "Some ''in''" "''%''" "''%-20''"]
      template_discipline [of Fn_stringFormat example_env "\<lparr>td_data = String ''abc'', td_count = 1\<rparr>"
        "''%-20''" _ _ _ _ "''abc''"]
      template_discipline [of Fn_stringFormat example_env "\<lparr>td_data = CharVal 0xff, td_count = 1\<rparr>"
        "''%''" _ _ _ _ _ _ _ "0xff"]
      stringFormat_char_ff
    by simp
qed

text \<open>
  C2 as stated fails for the formatters that never touch the template: the triggertype
  formatter, on an Int32 value it accepts, returns \<^verbatim>\<open>in\<close> and leaves the template
  \<^verbatim>\<open>%-20\<close> without a specifier; the xml formatter appends \<^verbatim>\<open>s\<close> but its result is
  not rendered through the template (no padding to 20).
\<close>

theorem triggertype_template_counterexample:
  "rpmHeaderFormatFuncByName ''triggertype'' = Some Fn_triggertypeFormat
   \<and> call_formatter Fn_triggertypeFormat example_env \<lparr>td_data = Int32 0x10000, td_count = 1\<rparr> ''%-20''
       = Inr (Some ''in'', ''%-20'')
   \<and> rpmHeaderFormatFuncByName ''xml'' = Some Fn_xmlFormat
   \<and> call_formatter Fn_xmlFormat example_env \<lparr>td_data = String ''abc'', td_count = 1\<rparr> ''%-20''
       = Inr (Some ([CHR 0x09] @ ''<string>abc</string>''), ''%-20s'')"
proof -
  have "rpmHeaderFormatFuncByName ''triggertype'' = Some Fn_triggertypeFormat"
    by (simp add: rpmHeaderFormatFuncByName_def rpmHeaderFormats_def entry_def)
  moreover have "call_formatter Fn_triggertypeFormat example_env \<lparr>td_data = Int32 0x10000, td_count = 1\<rparr> ''%-20''
       = Inr (Some ''in'', ''%-20'')"
    by (simp add: triggertypeFormat_def rpmtdType_def deref_def fbind_def Let_def
        RPMSENSE_TRIGGERPREIN_def RPMSENSE_TRIGGERIN_def)
  moreover have "rpmHeaderFormatFuncByName ''xml'' = Some Fn_xmlFormat"
    by (simp add: rpmHeaderFormatFuncByName_def rpmHeaderFormats_def entry_def)
  moreover have "call_formatter Fn_xmlFormat example_env \<lparr>td_data = String ''abc'', td_count = 1\<rparr> ''%-20''
       = Inr (Some ([CHR 0x09] @ ''<string>abc</string>''), ''%-20s'')"
    by (simp add: xmlFormat_def xml_class_def rpmtdType_def rpmtdFormat_def
        rpmHeaderFormatFuncByValue_def rpmHeaderFormats_def entry_def stringFormat_def
        rasprintf_def c_sprintf_bare_s fbind_def deref_def Let_def rstrcat_def)
  ultimately show ?thesis by blast
qed

subsection \<open>A formatter that returns no string\<close>

text \<open>
  C3. Every formatter should return a string for every tagged value. The base64
  formatter does not when the encoder fails: it returns NULL, and the xml formatter, which
  renders a Binary value through it, then reads through that NULL pointer.
\<close>

theorem base64_null_on_encoder_failure:
  "b64encode example_env [0x61, 0x62, 0x63] = None
   \<and> base64Format example_env \<lparr>td_data = Binary [0x61, 0x62, 0x63], td_count = 3\<rparr> ''%''
       = Inr (None, ''%'')
   \<and> call_formatter Fn_xmlFormat example_env \<lparr>td_data = Binary [0x61, 0x62, 0x63], td_count = 3\<rparr> ''%''
       = Inl Null_deref"
proof -
  have enc: "b64encode example_env [0x61, 0x62, 0x63] = None"
    by (simp add: example_env_def)
  have b64: "base64Format example_env \<lparr>td_data = Binary [0x61, 0x62, 0x63], td_count = 3\<rparr> ''%''
       = Inr (None, ''%'')"
    by (simp add: base64Format_def rpmtdType_def enc)
  have "call_formatter Fn_xmlFormat example_env \<lparr>td_data = Binary [0x61, 0x62, 0x63], td_count = 3\<rparr> ''%''
       = Inl Null_deref"
    by (simp add: xmlFormat_def xml_class_def rpmtdType_def rpmtdFormat_def
        rpmHeaderFormatFuncByValue_def rpmHeaderFormats_def entry_def b64 fbind_def deref_def)
  with enc b64 show ?thesis by simp
qed

end
